theory Spec2Isabelle
  imports Complex_Main "HOL-Library.Word"
begin

unbundle bit_operations_syntax

section \<open>Host toolkit values\<close>

text \<open>
  The binding receives Qt event objects. Their class hierarchy is rendered as one
  datatype: the event kind that \<open>event->type()\<close> returns selects the constructor, and the
  payload holds the accessors the handlers read. Floating-point values of the source
  (\<open>float\<close>, \<open>double\<close>, \<open>qreal\<close>) are modelled by \<open>real\<close>: rounding is not part of the model.
\<close>

type_synonym QObject = nat

type_synonym QPoint = "int \<times> int"

type_synonym ImVec2 = "real \<times> real"

datatype QMouseEventType = MouseButtonDblClick | MouseButtonPress | MouseButtonRelease | MouseMove

datatype QKeyEventType = KeyPress | KeyRelease | ShortcutOverride

text \<open>
  \<open>QMouseEvent\<close>: type, \<open>button()\<close> (the button that caused the event), \<open>buttons()\<close> (the
  aggregate mask). \<open>QWheelEvent\<close>: \<open>pixelDelta()\<close>, \<open>angleDelta()\<close>. \<open>QKeyEvent\<close>: type,
  \<open>key()\<close>, \<open>text()\<close> as UTF-16 code units, \<open>modifiers()\<close>.
\<close>

datatype QEvent =
    QMouseEvent QMouseEventType "32 word" "32 word"
  | QWheelEvent QPoint QPoint
  | QKeyEvent QKeyEventType int "16 word list" "32 word"
  | QOtherEvent

text \<open>\<open>Qt::MouseButton\<close> flags.\<close>

definition LeftButton :: "32 word" where "LeftButton = 0x00000001"
definition RightButton :: "32 word" where "RightButton = 0x00000002"
definition MiddleButton :: "32 word" where "MiddleButton = 0x00000004"

text \<open>\<open>Qt::KeyboardModifier\<close> flags.\<close>

definition ShiftModifier :: "32 word" where "ShiftModifier = 0x02000000"
definition ControlModifier :: "32 word" where "ControlModifier = 0x04000000"
definition AltModifier :: "32 word" where "AltModifier = 0x08000000"
definition MetaModifier :: "32 word" where "MetaModifier = 0x10000000"

text \<open>The \<open>Qt::Key\<close> codes the key map mentions, from the toolkit's header.\<close>

definition Key_Escape :: int where "Key_Escape = 0x01000000"
definition Key_Tab :: int where "Key_Tab = 0x01000001"
definition Key_Backspace :: int where "Key_Backspace = 0x01000003"
definition Key_Return :: int where "Key_Return = 0x01000004"
definition Key_Enter :: int where "Key_Enter = 0x01000005"
definition Key_Insert :: int where "Key_Insert = 0x01000006"
definition Key_Delete :: int where "Key_Delete = 0x01000007"
definition Key_Home :: int where "Key_Home = 0x01000010"
definition Key_End :: int where "Key_End = 0x01000011"
definition Key_Left :: int where "Key_Left = 0x01000012"
definition Key_Up :: int where "Key_Up = 0x01000013"
definition Key_Right :: int where "Key_Right = 0x01000014"
definition Key_Down :: int where "Key_Down = 0x01000015"
definition Key_PageUp :: int where "Key_PageUp = 0x01000016"
definition Key_PageDown :: int where "Key_PageDown = 0x01000017"
definition Key_Space :: int where "Key_Space = 0x20"
definition Key_A :: int where "Key_A = 0x41"
definition Key_B :: int where "Key_B = 0x42"
definition Key_C :: int where "Key_C = 0x43"
definition Key_V :: int where "Key_V = 0x56"
definition Key_X :: int where "Key_X = 0x58"
definition Key_Y :: int where "Key_Y = 0x59"
definition Key_Z :: int where "Key_Z = 0x5a"

datatype CursorShape =
    ArrowCursor | IBeamCursor | SizeAllCursor | SizeVerCursor | SizeHorCursor
  | SizeBDiagCursor | SizeFDiagCursor | PointingHandCursor | ForbiddenCursor | BlankCursor

text \<open>
  \<open>WindowWrapper\<close> is an abstract interface of the source. The record holds what its
  getters return and what its two setters change. \<open>cursorLocalPos\<close> is the pointer in
  window coordinates, the value of \<open>mapFromGlobal(QCursor::pos())\<close>.
\<close>

record WindowWrapper =
  win_size :: "int \<times> int"
  devicePixelRatio :: real
  isActive :: bool
  cursorLocalPos :: QPoint
  win_object :: QObject
  cursorShape :: CursorShape

definition setCursorShape :: "CursorShape \<Rightarrow> WindowWrapper \<Rightarrow> WindowWrapper" where
  "setCursorShape shape w = w\<lparr>cursorShape := shape\<rparr>"

definition window_setCursorPos :: "QPoint \<Rightarrow> WindowWrapper \<Rightarrow> WindowWrapper" where
  "window_setCursorPos localPos w = w\<lparr>cursorLocalPos := localPos\<rparr>"

section \<open>The immediate-mode library, as far as the binding drives it\<close>

datatype ImGuiKey =
    ImGuiKey_Tab | ImGuiKey_LeftArrow | ImGuiKey_RightArrow | ImGuiKey_UpArrow
  | ImGuiKey_DownArrow | ImGuiKey_PageUp | ImGuiKey_PageDown | ImGuiKey_Home | ImGuiKey_End
  | ImGuiKey_Insert | ImGuiKey_Delete | ImGuiKey_Backspace | ImGuiKey_Space | ImGuiKey_Enter
  | ImGuiKey_Escape | ImGuiKey_A | ImGuiKey_C | ImGuiKey_V | ImGuiKey_X | ImGuiKey_Y
  | ImGuiKey_Z | ImGuiKey_ModCtrl | ImGuiKey_ModShift | ImGuiKey_ModAlt | ImGuiKey_ModSuper

datatype ImGuiMouseButton = ImGuiMouseButton_Left | ImGuiMouseButton_Right | ImGuiMouseButton_Middle

datatype ImGuiMouseCursor =
    ImGuiMouseCursor_None | ImGuiMouseCursor_Arrow | ImGuiMouseCursor_TextInput
  | ImGuiMouseCursor_ResizeAll | ImGuiMouseCursor_ResizeNS | ImGuiMouseCursor_ResizeEW
  | ImGuiMouseCursor_ResizeNESW | ImGuiMouseCursor_ResizeNWSE | ImGuiMouseCursor_Hand
  | ImGuiMouseCursor_NotAllowed

text \<open>
  What the binding reports through \<open>io.AddMousePosEvent\<close>, \<open>io.AddMouseButtonEvent\<close>,
  \<open>io.AddMouseWheelEvent\<close>, \<open>io.AddKeyEvent\<close> and \<open>io.AddInputCharacter\<close>: one value
  per call, kept in call order in the input queue of the context.
\<close>

datatype InputEvent =
    MousePosEvent real real
  | MouseButtonEvent ImGuiMouseButton bool
  | MouseWheelEvent real real
  | KeyEvent ImGuiKey bool
  | InputCharacter "16 word"

section \<open>The graphics context\<close>

text \<open>
  The OpenGL context is an external collaborator. It is modelled as the values the
  renderer queries and sets, together with the list of calls issued, oldest first.
  Object names, enumerants and integer state are 32-bit values (\<open>GLint\<close>, \<open>GLuint\<close>,
  \<open>GLenum\<close>, \<open>GLsizei\<close> share the representation, so the casts between them are the
  identity on \<open>32 word\<close>). The 2D texture binding is kept per texture unit and the
  element-array-buffer binding per vertex-array object, as in OpenGL 3.3. Error
  conditions of the API (unknown object names, negative sizes) are not modelled: every
  call takes effect.
\<close>

type_synonym GLint = "32 word"
type_synonym GLuint = "32 word"
type_synonym GLenum = "32 word"
type_synonym GLsizeiptr = int

datatype gl_cap = GL_BLEND | GL_CULL_FACE | GL_DEPTH_TEST | GL_STENCIL_TEST | GL_SCISSOR_TEST

datatype gl_buffer_target = GL_ARRAY_BUFFER | GL_ELEMENT_ARRAY_BUFFER

definition GL_TEXTURE0 :: GLenum where "GL_TEXTURE0 = 0x84C0"
definition GL_TEXTURE1 :: GLenum where "GL_TEXTURE1 = 0x84C1"
definition GL_FUNC_ADD :: GLenum where "GL_FUNC_ADD = 0x8006"
definition GL_ONE :: GLenum where "GL_ONE = 1"
definition GL_SRC_ALPHA :: GLenum where "GL_SRC_ALPHA = 0x0302"
definition GL_ONE_MINUS_SRC_ALPHA :: GLenum where "GL_ONE_MINUS_SRC_ALPHA = 0x0303"
definition GL_STREAM_DRAW :: GLenum where "GL_STREAM_DRAW = 0x88E0"
definition GL_TRIANGLES :: GLenum where "GL_TRIANGLES = 0x0004"
definition GL_UNSIGNED_BYTE :: GLenum where "GL_UNSIGNED_BYTE = 0x1401"
definition GL_UNSIGNED_SHORT :: GLenum where "GL_UNSIGNED_SHORT = 0x1403"
definition GL_UNSIGNED_INT :: GLenum where "GL_UNSIGNED_INT = 0x1405"
definition GL_FLOAT :: GLenum where "GL_FLOAT = 0x1406"

type_synonym gl_rect = "GLint \<times> GLint \<times> GLint \<times> GLint"

datatype gl_call =
    GlActiveTexture GLenum
  | GlEnable gl_cap
  | GlDisable gl_cap
  | GlBlendEquation GLenum
  | GlBlendEquationSeparate GLenum GLenum
  | GlBlendFuncSeparate GLenum GLenum GLenum GLenum
  | GlViewport gl_rect
  | GlScissor gl_rect
  | GlUseProgram GLuint
  | GlUniform1i GLint GLint
  | GlUniformMatrix4fv GLint "real list"
  | GlGenVertexArrays GLuint
  | GlDeleteVertexArrays GLuint
  | GlBindVertexArray GLuint
  | GlBindBuffer gl_buffer_target GLuint
  | GlEnableVertexAttribArray GLuint
  | GlVertexAttribPointer GLuint GLint GLenum bool nat nat
  | GlBindTexture GLuint
  | GlBufferData gl_buffer_target GLsizeiptr GLenum
  | GlBufferSubData gl_buffer_target GLsizeiptr
  | GlDrawElements GLenum GLint GLenum nat

record gl_state =
  active_texture :: GLenum
  current_program :: GLuint
  texture_binding_2d :: "GLenum \<Rightarrow> GLuint"
  array_buffer_binding :: GLuint
  vertex_array_binding :: GLuint
  element_array_buffer_binding :: "GLuint \<Rightarrow> GLuint"
  blend_src_rgb :: GLenum
  blend_dst_rgb :: GLenum
  blend_src_alpha :: GLenum
  blend_dst_alpha :: GLenum
  blend_equation_rgb :: GLenum
  blend_equation_alpha :: GLenum
  viewport :: gl_rect
  scissor_box :: gl_rect
  enabled :: "gl_cap \<Rightarrow> bool"
  gl_calls :: "gl_call list"

text \<open>
  The queries of the source, \<open>glGetIntegerv(pname, &v)\<close> and \<open>glIsEnabled(cap)\<close>, read
  the state and change nothing. Two of them go through an indirection:
  \<open>GL_TEXTURE_BINDING_2D\<close> is the binding of the active texture unit and
  \<open>GL_ELEMENT_ARRAY_BUFFER_BINDING\<close> is the binding of the bound vertex-array object.
\<close>

definition get_GL_TEXTURE_BINDING_2D :: "gl_state \<Rightarrow> GLint" where
  "get_GL_TEXTURE_BINDING_2D s = texture_binding_2d s (active_texture s)"

definition get_GL_ELEMENT_ARRAY_BUFFER_BINDING :: "gl_state \<Rightarrow> GLint" where
  "get_GL_ELEMENT_ARRAY_BUFFER_BINDING s =
     element_array_buffer_binding s (vertex_array_binding s)"

definition glIsEnabled :: "gl_cap \<Rightarrow> gl_state \<Rightarrow> bool" where
  "glIsEnabled cap s = enabled s cap"

definition issue :: "gl_call \<Rightarrow> gl_state \<Rightarrow> gl_state" where
  "issue c s = s\<lparr>gl_calls := gl_calls s @ [c]\<rparr>"

definition glActiveTexture :: "GLenum \<Rightarrow> gl_state \<Rightarrow> gl_state" where
  "glActiveTexture texture s = issue (GlActiveTexture texture) (s\<lparr>active_texture := texture\<rparr>)"

definition glEnable :: "gl_cap \<Rightarrow> gl_state \<Rightarrow> gl_state" where
  "glEnable cap s = issue (GlEnable cap) (s\<lparr>enabled := (enabled s)(cap := True)\<rparr>)"

definition glDisable :: "gl_cap \<Rightarrow> gl_state \<Rightarrow> gl_state" where
  "glDisable cap s = issue (GlDisable cap) (s\<lparr>enabled := (enabled s)(cap := False)\<rparr>)"

definition glBlendEquation :: "GLenum \<Rightarrow> gl_state \<Rightarrow> gl_state" where
  "glBlendEquation mode s =
     issue (GlBlendEquation mode) (s\<lparr>blend_equation_rgb := mode, blend_equation_alpha := mode\<rparr>)"

definition glBlendEquationSeparate :: "GLenum \<Rightarrow> GLenum \<Rightarrow> gl_state \<Rightarrow> gl_state" where
  "glBlendEquationSeparate modeRGB modeAlpha s =
     issue (GlBlendEquationSeparate modeRGB modeAlpha)
       (s\<lparr>blend_equation_rgb := modeRGB, blend_equation_alpha := modeAlpha\<rparr>)"

definition glBlendFuncSeparate ::
  "GLenum \<Rightarrow> GLenum \<Rightarrow> GLenum \<Rightarrow> GLenum \<Rightarrow> gl_state \<Rightarrow> gl_state" where
  "glBlendFuncSeparate srcRGB dstRGB srcAlpha dstAlpha s =
     issue (GlBlendFuncSeparate srcRGB dstRGB srcAlpha dstAlpha)
       (s\<lparr>blend_src_rgb := srcRGB, blend_dst_rgb := dstRGB,
          blend_src_alpha := srcAlpha, blend_dst_alpha := dstAlpha\<rparr>)"

definition glViewport :: "GLint \<Rightarrow> GLint \<Rightarrow> GLint \<Rightarrow> GLint \<Rightarrow> gl_state \<Rightarrow> gl_state" where
  "glViewport x y width height s =
     issue (GlViewport (x, y, width, height)) (s\<lparr>viewport := (x, y, width, height)\<rparr>)"

definition glScissor :: "GLint \<Rightarrow> GLint \<Rightarrow> GLint \<Rightarrow> GLint \<Rightarrow> gl_state \<Rightarrow> gl_state" where
  "glScissor x y width height s =
     issue (GlScissor (x, y, width, height)) (s\<lparr>scissor_box := (x, y, width, height)\<rparr>)"

definition glUseProgram :: "GLuint \<Rightarrow> gl_state \<Rightarrow> gl_state" where
  "glUseProgram program s = issue (GlUseProgram program) (s\<lparr>current_program := program\<rparr>)"

definition glUniform1i :: "GLint \<Rightarrow> GLint \<Rightarrow> gl_state \<Rightarrow> gl_state" where
  "glUniform1i location v0 s = issue (GlUniform1i location v0) s"

definition glUniformMatrix4fv :: "GLint \<Rightarrow> real list \<Rightarrow> gl_state \<Rightarrow> gl_state" where
  "glUniformMatrix4fv location m s = issue (GlUniformMatrix4fv location m) s"

text \<open>
  \<open>glGenVertexArrays\<close> hands out a name of the context's choosing; the name it returns
  is an input of the model. Deleting the bound vertex-array object resets the binding to
  zero, and the deleted object loses its element-array-buffer binding.
\<close>

definition glGenVertexArrays :: "GLuint \<Rightarrow> gl_state \<Rightarrow> gl_state" where
  "glGenVertexArrays name s = issue (GlGenVertexArrays name) s"

definition glDeleteVertexArrays :: "GLuint \<Rightarrow> gl_state \<Rightarrow> gl_state" where
  "glDeleteVertexArrays name s =
     issue (GlDeleteVertexArrays name)
       (s\<lparr>vertex_array_binding :=
            (if vertex_array_binding s = name then 0 else vertex_array_binding s),
          element_array_buffer_binding := (element_array_buffer_binding s)(name := 0)\<rparr>)"

definition glBindVertexArray :: "GLuint \<Rightarrow> gl_state \<Rightarrow> gl_state" where
  "glBindVertexArray array s = issue (GlBindVertexArray array) (s\<lparr>vertex_array_binding := array\<rparr>)"

definition glBindBuffer :: "gl_buffer_target \<Rightarrow> GLuint \<Rightarrow> gl_state \<Rightarrow> gl_state" where
  "glBindBuffer target buffer s =
     issue (GlBindBuffer target buffer)
       (case target of
          GL_ARRAY_BUFFER \<Rightarrow> s\<lparr>array_buffer_binding := buffer\<rparr>
        | GL_ELEMENT_ARRAY_BUFFER \<Rightarrow>
            s\<lparr>element_array_buffer_binding :=
                (element_array_buffer_binding s)(vertex_array_binding s := buffer)\<rparr>)"

definition glEnableVertexAttribArray :: "GLuint \<Rightarrow> gl_state \<Rightarrow> gl_state" where
  "glEnableVertexAttribArray index s = issue (GlEnableVertexAttribArray index) s"

definition glVertexAttribPointer ::
  "GLuint \<Rightarrow> GLint \<Rightarrow> GLenum \<Rightarrow> bool \<Rightarrow> nat \<Rightarrow> nat \<Rightarrow> gl_state \<Rightarrow> gl_state" where
  "glVertexAttribPointer index sz type normalized stride pointer s =
     issue (GlVertexAttribPointer index sz type normalized stride pointer) s"

text \<open>\<open>glBindTexture(GL_TEXTURE_2D, texture)\<close> binds on the active texture unit.\<close>

definition glBindTexture :: "GLuint \<Rightarrow> gl_state \<Rightarrow> gl_state" where
  "glBindTexture texture s =
     issue (GlBindTexture texture)
       (s\<lparr>texture_binding_2d := (texture_binding_2d s)(active_texture s := texture)\<rparr>)"

definition glBufferData :: "gl_buffer_target \<Rightarrow> GLsizeiptr \<Rightarrow> GLenum \<Rightarrow> gl_state \<Rightarrow> gl_state" where
  "glBufferData target sz usage s = issue (GlBufferData target sz usage) s"

definition glBufferSubData :: "gl_buffer_target \<Rightarrow> GLsizeiptr \<Rightarrow> gl_state \<Rightarrow> gl_state" where
  "glBufferSubData target sz s = issue (GlBufferSubData target sz) s"

definition glDrawElements :: "GLenum \<Rightarrow> GLint \<Rightarrow> GLenum \<Rightarrow> nat \<Rightarrow> gl_state \<Rightarrow> gl_state" where
  "glDrawElements mode count type indices s = issue (GlDrawElements mode count type indices) s"

section \<open>The display list\<close>

text \<open>
  A user callback of a draw command is code of the host application that runs inside
  the graphics context: its effect is a function on the graphics state.
  \<open>ImDrawCallback_ResetRenderState\<close> is the library's sentinel value.
\<close>

datatype ImDrawCallback =
    ImDrawCallback_ResetRenderState
  | UserFunction "gl_state \<Rightarrow> gl_state"

text \<open>\<open>ClipRect\<close> is \<open>(x, y, z, w)\<close>: the upper-left and lower-right corners.\<close>

record ImDrawCmd =
  ClipRect :: "real \<times> real \<times> real \<times> real"
  TextureId :: "64 word"
  IdxOffset :: "32 word"
  ElemCount :: "32 word"
  UserCallback :: "ImDrawCallback option"

record ImDrawVert =
  pos :: ImVec2
  uv :: ImVec2
  col :: "32 word"

record ImDrawList =
  CmdBuffer :: "ImDrawCmd list"
  IdxBuffer :: "16 word list"
  VtxBuffer :: "ImDrawVert list"

record ImDrawData =
  CmdLists :: "ImDrawList list"
  DisplayPos :: ImVec2
  dd_DisplaySize :: ImVec2
  FramebufferScale :: ImVec2

text \<open>The sizes of the library's vertex and index types (its default 16-bit indices).\<close>

definition sizeof_ImDrawVert :: nat where "sizeof_ImDrawVert = 20"
definition sizeof_ImDrawIdx :: nat where "sizeof_ImDrawIdx = 2"

text \<open>
  \<open>ImDrawData::ScaleClipRects\<close> of the library multiplies every clip rectangle of every
  command list by the scale, component by component.
\<close>

definition scale_cmd :: "ImVec2 \<Rightarrow> ImDrawCmd \<Rightarrow> ImDrawCmd" where
  "scale_cmd fb_scale cmd =
     (case ClipRect cmd of (cx, cy, cz, cw) \<Rightarrow>
        cmd\<lparr>ClipRect := (cx * fst fb_scale, cy * snd fb_scale, cz * fst fb_scale, cw * snd fb_scale)\<rparr>)"

definition ScaleClipRects :: "ImVec2 \<Rightarrow> ImDrawData \<Rightarrow> ImDrawData" where
  "ScaleClipRects fb_scale drawData =
     drawData\<lparr>CmdLists :=
       map (\<lambda>cmdList. cmdList\<lparr>CmdBuffer := map (scale_cmd fb_scale) (CmdBuffer cmdList)\<rparr>)
         (CmdLists drawData)\<rparr>"

section \<open>Contexts of the immediate-mode library\<close>

text \<open>
  One context holds the input/output structure \<open>io\<close> (of which the binding reads and
  writes the fields below), the requested mouse cursor, the font size that
  \<open>ImGui::GetTextLineHeight()\<close> returns, a frame counter and the draw data that
  \<open>ImGui::GetDrawData()\<close> returns. The library keeps one pointer to the current context,
  \<open>GImGui\<close>; \<open>ImGui::GetIO()\<close> is the \<open>io\<close> of that context.
\<close>

record ImGuiContext =
  DisplaySize :: ImVec2
  DisplayFramebufferScale :: ImVec2
  DeltaTime :: real
  ConfigFlags :: "32 word"
  MouseDrawCursor :: bool
  WantSetMousePos :: bool
  MousePos :: ImVec2
  InputQueue :: "InputEvent list"
  MouseCursor :: ImGuiMouseCursor
  FontSize :: real
  FrameCount :: nat
  DrawData :: ImDrawData

record ImGui =
  GImGui :: nat
  Contexts :: "nat \<Rightarrow> ImGuiContext"

definition ImGuiConfigFlags_NoMouseCursorChange :: "32 word" where
  "ImGuiConfigFlags_NoMouseCursorChange = push_bit 5 1"

definition SetCurrentContext :: "nat \<Rightarrow> ImGui \<Rightarrow> ImGui" where
  "SetCurrentContext ctx im = im\<lparr>GImGui := ctx\<rparr>"

definition GetIO :: "ImGui \<Rightarrow> ImGuiContext" where
  "GetIO im = Contexts im (GImGui im)"

definition update_io :: "(ImGuiContext \<Rightarrow> ImGuiContext) \<Rightarrow> ImGui \<Rightarrow> ImGui" where
  "update_io f im = im\<lparr>Contexts := (Contexts im)(GImGui im := f (Contexts im (GImGui im)))\<rparr>"

definition add_input_event :: "InputEvent \<Rightarrow> ImGui \<Rightarrow> ImGui" where
  "add_input_event e = update_io (\<lambda>io. io\<lparr>InputQueue := InputQueue io @ [e]\<rparr>)"

definition AddMousePosEvent :: "real \<Rightarrow> real \<Rightarrow> ImGui \<Rightarrow> ImGui" where
  "AddMousePosEvent x y = add_input_event (MousePosEvent x y)"

definition AddMouseButtonEvent :: "ImGuiMouseButton \<Rightarrow> bool \<Rightarrow> ImGui \<Rightarrow> ImGui" where
  "AddMouseButtonEvent button down = add_input_event (MouseButtonEvent button down)"

definition AddMouseWheelEvent :: "real \<Rightarrow> real \<Rightarrow> ImGui \<Rightarrow> ImGui" where
  "AddMouseWheelEvent wx wy = add_input_event (MouseWheelEvent wx wy)"

definition AddKeyEvent :: "ImGuiKey \<Rightarrow> bool \<Rightarrow> ImGui \<Rightarrow> ImGui" where
  "AddKeyEvent k down = add_input_event (KeyEvent k down)"

definition AddInputCharacter :: "16 word \<Rightarrow> ImGui \<Rightarrow> ImGui" where
  "AddInputCharacter c = add_input_event (InputCharacter c)"

definition GetTextLineHeight :: "ImGui \<Rightarrow> real" where
  "GetTextLineHeight im = FontSize (GetIO im)"

definition GetMouseCursor :: "ImGui \<Rightarrow> ImGuiMouseCursor" where
  "GetMouseCursor im = MouseCursor (GetIO im)"

definition GetDrawData :: "ImGui \<Rightarrow> ImDrawData" where
  "GetDrawData im = DrawData (GetIO im)"

text \<open>
  \<open>ImGui::NewFrame()\<close> belongs to the library; of its effects only the frame counter of
  the current context is kept.
\<close>

definition NewFrame :: "ImGui \<Rightarrow> ImGui" where
  "NewFrame = update_io (\<lambda>g. g\<lparr>FrameCount := Suc (FrameCount g)\<rparr>)"

section \<open>The renderer\<close>

record ImGuiRenderer =
  mWindow :: WindowWrapper
  mCtx :: nat
  mTime :: real
  mGlVersion :: GLuint
  mFontTexture :: GLuint
  mShaderHandle :: GLuint
  mVertHandle :: GLuint
  mFragHandle :: GLuint
  mAttribLocationTex :: GLint
  mAttribLocationProjMtx :: GLint
  mAttribLocationVtxPos :: GLint
  mAttribLocationVtxUV :: GLint
  mAttribLocationVtxColor :: GLint
  mVboHandle :: GLuint
  mElementsHandle :: GLuint
  mVertexBufferSize :: GLsizeiptr
  mIndexBufferSize :: GLsizeiptr

subsection \<open>Tables\<close>

definition keyMap :: "int \<rightharpoonup> ImGuiKey" where
  "keyMap = map_of
     [(Key_Tab, ImGuiKey_Tab),
      (Key_Left, ImGuiKey_LeftArrow),
      (Key_Right, ImGuiKey_RightArrow),
      (Key_Up, ImGuiKey_UpArrow),
      (Key_Down, ImGuiKey_DownArrow),
      (Key_PageUp, ImGuiKey_PageUp),
      (Key_PageDown, ImGuiKey_PageDown),
      (Key_Home, ImGuiKey_Home),
      (Key_End, ImGuiKey_End),
      (Key_Insert, ImGuiKey_Insert),
      (Key_Delete, ImGuiKey_Delete),
      (Key_Backspace, ImGuiKey_Backspace),
      (Key_Space, ImGuiKey_Space),
      (Key_Enter, ImGuiKey_Enter),
      (Key_Return, ImGuiKey_Enter),
      (Key_Escape, ImGuiKey_Escape),
      (Key_A, ImGuiKey_A),
      (Key_C, ImGuiKey_C),
      (Key_V, ImGuiKey_V),
      (Key_X, ImGuiKey_X),
      (Key_Y, ImGuiKey_Y),
      (Key_Z, ImGuiKey_Z)]"

definition cursorMap :: "ImGuiMouseCursor \<rightharpoonup> CursorShape" where
  "cursorMap = map_of
     [(ImGuiMouseCursor_Arrow, ArrowCursor),
      (ImGuiMouseCursor_TextInput, IBeamCursor),
      (ImGuiMouseCursor_ResizeAll, SizeAllCursor),
      (ImGuiMouseCursor_ResizeNS, SizeVerCursor),
      (ImGuiMouseCursor_ResizeEW, SizeHorCursor),
      (ImGuiMouseCursor_ResizeNESW, SizeBDiagCursor),
      (ImGuiMouseCursor_ResizeNWSE, SizeFDiagCursor),
      (ImGuiMouseCursor_Hand, PointingHandCursor),
      (ImGuiMouseCursor_NotAllowed, ForbiddenCursor)]"

subsection \<open>Input handlers\<close>

text \<open>A flags value converts to \<open>bool\<close> as "some bit is set".\<close>

definition testFlag :: "32 word \<Rightarrow> 32 word \<Rightarrow> bool" where
  "testFlag flags flag = (flags AND flag \<noteq> 0)"

definition onMousePressedChange :: "ImGuiRenderer \<Rightarrow> 32 word \<Rightarrow> ImGui \<Rightarrow> ImGui" where
  "onMousePressedChange r buttons im =
     (let im = SetCurrentContext (mCtx r) im;
          im = AddMouseButtonEvent ImGuiMouseButton_Left (testFlag buttons LeftButton) im;
          im = AddMouseButtonEvent ImGuiMouseButton_Right (testFlag buttons RightButton) im;
          im = AddMouseButtonEvent ImGuiMouseButton_Middle (testFlag buttons MiddleButton) im
      in im)"

definition wheel_x :: "real \<Rightarrow> QPoint \<Rightarrow> QPoint \<Rightarrow> real" where
  "wheel_x lineHeight pixelDelta angleDelta =
     (if fst pixelDelta \<noteq> 0 then real_of_int (fst pixelDelta) / lineHeight
      else real_of_int (fst angleDelta) / 120)"

definition wheel_y :: "real \<Rightarrow> QPoint \<Rightarrow> QPoint \<Rightarrow> real" where
  "wheel_y lineHeight pixelDelta angleDelta =
     (if snd pixelDelta \<noteq> 0 then real_of_int (snd pixelDelta) / (5 * lineHeight)
      else real_of_int (snd angleDelta) / 120)"

definition onWheel :: "ImGuiRenderer \<Rightarrow> QPoint \<Rightarrow> QPoint \<Rightarrow> ImGui \<Rightarrow> ImGui" where
  "onWheel r pixelDelta angleDelta im =
     (let im = SetCurrentContext (mCtx r) im;
          wx = wheel_x (GetTextLineHeight im) pixelDelta angleDelta;
          wy = wheel_y (GetTextLineHeight im) pixelDelta angleDelta
      in AddMouseWheelEvent wx wy im)"

text \<open>
  The build flag \<open>Q_OS_MAC\<close> is the parameter \<open>mac\<close>: on that platform the control and
  meta modifier bits trade places.
\<close>

definition report_modifiers :: "bool \<Rightarrow> 32 word \<Rightarrow> ImGui \<Rightarrow> ImGui" where
  "report_modifiers mac modifiers im =
     (if mac then
        (let im = AddKeyEvent ImGuiKey_ModCtrl (testFlag modifiers MetaModifier) im;
             im = AddKeyEvent ImGuiKey_ModShift (testFlag modifiers ShiftModifier) im;
             im = AddKeyEvent ImGuiKey_ModAlt (testFlag modifiers AltModifier) im;
             im = AddKeyEvent ImGuiKey_ModSuper (testFlag modifiers ControlModifier) im
         in im)
      else
        (let im = AddKeyEvent ImGuiKey_ModCtrl (testFlag modifiers ControlModifier) im;
             im = AddKeyEvent ImGuiKey_ModShift (testFlag modifiers ShiftModifier) im;
             im = AddKeyEvent ImGuiKey_ModAlt (testFlag modifiers AltModifier) im;
             im = AddKeyEvent ImGuiKey_ModSuper (testFlag modifiers MetaModifier) im
         in im))"

definition onKeyPressRelease ::
  "bool \<Rightarrow> ImGuiRenderer \<Rightarrow> QKeyEventType \<Rightarrow> int \<Rightarrow> 16 word list \<Rightarrow> 32 word \<Rightarrow> ImGui \<Rightarrow> ImGui" where
  "onKeyPressRelease mac r type key text modifiers im =
     (let im = SetCurrentContext (mCtx r) im;
          key_pressed = (type = KeyPress);
          im = (case keyMap key of
                  Some imgui_key \<Rightarrow> AddKeyEvent imgui_key key_pressed im
                | None \<Rightarrow> im);
          im = (if key_pressed then
                  (case text of [c] \<Rightarrow> AddInputCharacter c im | _ \<Rightarrow> im)
                else im)
      in report_modifiers mac modifiers im)"

text \<open>
  The event filter. \<open>base\<close> is \<open>QObject::eventFilter\<close>, the implementation of the base
  class, whose result the filter returns.
\<close>

definition eventFilter ::
  "(QObject \<Rightarrow> QEvent \<Rightarrow> bool) \<Rightarrow> bool \<Rightarrow> ImGuiRenderer \<Rightarrow> QObject \<Rightarrow> QEvent \<Rightarrow> ImGui
     \<Rightarrow> ImGui \<times> bool" where
  "eventFilter base mac r watched event im =
     (let im =
        (if watched = win_object (mWindow r) then
           (case event of
              QMouseEvent MouseButtonDblClick button buttons \<Rightarrow> onMousePressedChange r buttons im
            | QMouseEvent MouseButtonPress button buttons \<Rightarrow> onMousePressedChange r buttons im
            | QMouseEvent MouseButtonRelease button buttons \<Rightarrow> onMousePressedChange r buttons im
            | QWheelEvent pixelDelta angleDelta \<Rightarrow> onWheel r pixelDelta angleDelta im
            | QKeyEvent KeyPress key text modifiers \<Rightarrow>
                onKeyPressRelease mac r KeyPress key text modifiers im
            | QKeyEvent KeyRelease key text modifiers \<Rightarrow>
                onKeyPressRelease mac r KeyRelease key text modifiers im
            | _ \<Rightarrow> im)
         else im)
      in (im, base watched event))"

text \<open>
  \<open>QObject::eventFilter\<close> of the toolkit, the base implementation the renderer does not
  override further: it filters nothing.
\<close>

definition QObject_eventFilter :: "QObject \<Rightarrow> QEvent \<Rightarrow> bool" where
  "QObject_eventFilter watched event = False"

subsection \<open>The frame driver\<close>

text \<open>
  A C cast from a floating-point value to \<open>int\<close> truncates towards zero. (The cast is
  undefined when the value does not fit; the model truncates all the same.)
\<close>

definition int_of_float :: "real \<Rightarrow> int" where
  "int_of_float x = (if 0 \<le> x then \<lfloor>x\<rfloor> else \<lceil>x\<rceil>)"

text \<open>Both cursor functions are modelled with cursor support compiled in.\<close>

definition setCursorPos :: "ImGuiContext \<Rightarrow> ImGuiRenderer \<Rightarrow> ImGuiRenderer" where
  "setCursorPos io r =
     (if WantSetMousePos io then
        r\<lparr>mWindow :=
            window_setCursorPos (int_of_float (fst (MousePos io)), int_of_float (snd (MousePos io)))
              (mWindow r)\<rparr>
      else r)"

definition updateCursorShape :: "ImGui \<Rightarrow> ImGuiRenderer \<Rightarrow> ImGuiRenderer" where
  "updateCursorShape im r =
     (if testFlag (ConfigFlags (GetIO im)) ImGuiConfigFlags_NoMouseCursorChange then r
      else
        (let imgui_cursor = GetMouseCursor im in
         if MouseDrawCursor (GetIO im) \<or> imgui_cursor = ImGuiMouseCursor_None then
           r\<lparr>mWindow := setCursorShape BlankCursor (mWindow r)\<rparr>
         else
           (case cursorMap imgui_cursor of
              Some qt_cursor_shape \<Rightarrow> r\<lparr>mWindow := setCursorShape qt_cursor_shape (mWindow r)\<rparr>
            | None \<Rightarrow> r\<lparr>mWindow := setCursorShape ArrowCursor (mWindow r)\<rparr>)))"

text \<open>
  \<open>newFrame\<close> reads the wall clock once, through
  \<open>QDateTime::currentMSecsSinceEpoch()\<close>: the reading, in milliseconds, is the first
  argument. The function does not select a context: \<open>io\<close> is that of the current one.
\<close>

definition newFrame :: "int \<Rightarrow> ImGuiRenderer \<Rightarrow> ImGui \<Rightarrow> ImGuiRenderer \<times> ImGui" where
  "newFrame currentMSecsSinceEpoch r im =
     (let im = update_io (\<lambda>io. io
                 \<lparr>DisplaySize :=
                    (real_of_int (fst (win_size (mWindow r))), real_of_int (snd (win_size (mWindow r)))),
                  DisplayFramebufferScale :=
                    (devicePixelRatio (mWindow r), devicePixelRatio (mWindow r))\<rparr>) im;
          currentTime = real_of_int currentMSecsSinceEpoch / 1000;
          im = update_io (\<lambda>io. io
                 \<lparr>DeltaTime := (if mTime r > 0 then currentTime - mTime r else 1 / 60)\<rparr>) im;
          r = r\<lparr>mTime := currentTime\<rparr>;
          r = setCursorPos (GetIO im) r;
          im = (if isActive (mWindow r) then
                  (let pos = cursorLocalPos (mWindow r)
                   in AddMousePosEvent (real_of_int (fst pos)) (real_of_int (snd pos)) im)
                else AddMousePosEvent (- 1) (- 1) im);
          r = updateCursorShape im r;
          im = NewFrame im
      in (r, im))"

subsection \<open>The draw-list rasterizer\<close>

definition run :: "('s \<Rightarrow> 's) list \<Rightarrow> 's \<Rightarrow> 's" where
  "run calls s = fold (\<lambda>call. call) calls s"

definition orthoProjection :: "ImDrawData \<Rightarrow> real list" where
  "orthoProjection drawData =
     (let L = fst (DisplayPos drawData);
          R = fst (DisplayPos drawData) + fst (dd_DisplaySize drawData);
          T = snd (DisplayPos drawData);
          B = snd (DisplayPos drawData) + snd (dd_DisplaySize drawData)
      in [2 / (R - L), 0, 0, 0,
          0, 2 / (T - B), 0, 0,
          0, 0, - 1, 0,
          (R + L) / (L - R), (T + B) / (B - T), 0, 1])"

definition setupRenderStates ::
  "ImGuiRenderer \<Rightarrow> ImDrawData \<Rightarrow> int \<Rightarrow> int \<Rightarrow> GLuint \<Rightarrow> gl_state \<Rightarrow> gl_state" where
  "setupRenderStates r drawData fbWidth fbHeight vertexArrayObject =
     run [glEnable GL_BLEND,
          glBlendEquation GL_FUNC_ADD,
          glBlendFuncSeparate GL_SRC_ALPHA GL_ONE_MINUS_SRC_ALPHA GL_ONE GL_ONE_MINUS_SRC_ALPHA,
          glDisable GL_CULL_FACE,
          glDisable GL_DEPTH_TEST,
          glDisable GL_STENCIL_TEST,
          glEnable GL_SCISSOR_TEST,
          glViewport 0 0 (word_of_int fbWidth) (word_of_int fbHeight),
          glUseProgram (mShaderHandle r),
          glUniform1i (mAttribLocationTex r) 0,
          glUniformMatrix4fv (mAttribLocationProjMtx r) (orthoProjection drawData),
          glBindVertexArray vertexArrayObject,
          glBindBuffer GL_ARRAY_BUFFER (mVboHandle r),
          glBindBuffer GL_ELEMENT_ARRAY_BUFFER (mElementsHandle r),
          glEnableVertexAttribArray (mAttribLocationVtxPos r),
          glEnableVertexAttribArray (mAttribLocationVtxUV r),
          glEnableVertexAttribArray (mAttribLocationVtxColor r),
          glVertexAttribPointer (mAttribLocationVtxPos r) 2 GL_FLOAT False sizeof_ImDrawVert 0,
          glVertexAttribPointer (mAttribLocationVtxUV r) 2 GL_FLOAT False sizeof_ImDrawVert 8,
          glVertexAttribPointer (mAttribLocationVtxColor r) 4 GL_UNSIGNED_BYTE True
            sizeof_ImDrawVert 16]"

text \<open>The local variables of \<open>renderDrawList\<close> that hold the state found at entry.\<close>

record gl_backup =
  lastActiveTexture :: GLint
  lastProgram :: GLint
  lastTexture :: GLint
  lastArrayBuffer :: GLint
  lastElementArrayBuffer :: GLint
  lastVertexArray :: GLint
  lastBlendSrcRgb :: GLint
  lastBlendDstRgb :: GLint
  lastBlendSrcAlpha :: GLint
  lastBlendDstAlpha :: GLint
  lastBlendEquationRgb :: GLint
  lastBlendEquationAlpha :: GLint
  lastViewport :: gl_rect
  lastScissorBox :: gl_rect
  lastEnableBlend :: bool
  lastEnableCullFace :: bool
  lastEnableDepthTest :: bool
  lastEnableScissorTest :: bool

text \<open>
  The backup reads the active texture unit, then switches to unit 0, then reads the
  rest: \<open>lastTexture\<close> is the 2D texture bound on unit 0.
\<close>

definition backup_gl_state :: "gl_state \<Rightarrow> gl_backup \<times> gl_state" where
  "backup_gl_state s0 =
     (let lastActiveTexture = active_texture s0;
          s = glActiveTexture GL_TEXTURE0 s0
      in (\<lparr>lastActiveTexture = lastActiveTexture,
           lastProgram = current_program s,
           lastTexture = get_GL_TEXTURE_BINDING_2D s,
           lastArrayBuffer = array_buffer_binding s,
           lastElementArrayBuffer = get_GL_ELEMENT_ARRAY_BUFFER_BINDING s,
           lastVertexArray = vertex_array_binding s,
           lastBlendSrcRgb = blend_src_rgb s,
           lastBlendDstRgb = blend_dst_rgb s,
           lastBlendSrcAlpha = blend_src_alpha s,
           lastBlendDstAlpha = blend_dst_alpha s,
           lastBlendEquationRgb = blend_equation_rgb s,
           lastBlendEquationAlpha = blend_equation_alpha s,
           lastViewport = viewport s,
           lastScissorBox = scissor_box s,
           lastEnableBlend = glIsEnabled GL_BLEND s,
           lastEnableCullFace = glIsEnabled GL_CULL_FACE s,
           lastEnableDepthTest = glIsEnabled GL_DEPTH_TEST s,
           lastEnableScissorTest = glIsEnabled GL_SCISSOR_TEST s\<rparr>, s))"

definition set_enabled :: "gl_cap \<Rightarrow> bool \<Rightarrow> gl_state \<Rightarrow> gl_state" where
  "set_enabled cap on = (if on then glEnable cap else glDisable cap)"

definition restore_gl_state :: "gl_backup \<Rightarrow> gl_state \<Rightarrow> gl_state" where
  "restore_gl_state b =
     run [glUseProgram (lastProgram b),
          glBindTexture (lastTexture b),
          glActiveTexture (lastActiveTexture b),
          glBindVertexArray (lastVertexArray b),
          glBindBuffer GL_ARRAY_BUFFER (lastArrayBuffer b),
          glBindBuffer GL_ELEMENT_ARRAY_BUFFER (lastElementArrayBuffer b),
          glBlendEquationSeparate (lastBlendEquationRgb b) (lastBlendEquationAlpha b),
          glBlendFuncSeparate (lastBlendSrcRgb b) (lastBlendDstRgb b) (lastBlendSrcAlpha b)
            (lastBlendDstAlpha b),
          set_enabled GL_BLEND (lastEnableBlend b),
          set_enabled GL_CULL_FACE (lastEnableCullFace b),
          set_enabled GL_DEPTH_TEST (lastEnableDepthTest b),
          set_enabled GL_SCISSOR_TEST (lastEnableScissorTest b),
          (case lastViewport b of (x, y, w, h) \<Rightarrow> glViewport x y w h),
          (case lastScissorBox b of (x, y, w, h) \<Rightarrow> glScissor x y w h)]"

text \<open>The clip rectangle of a command in framebuffer space.\<close>

definition clipMin :: "ImDrawData \<Rightarrow> ImDrawCmd \<Rightarrow> ImVec2" where
  "clipMin drawData pcmd =
     (case ClipRect pcmd of (cx, cy, cz, cw) \<Rightarrow>
        ((cx - fst (DisplayPos drawData)) * fst (FramebufferScale drawData),
         (cy - snd (DisplayPos drawData)) * snd (FramebufferScale drawData)))"

definition clipMax :: "ImDrawData \<Rightarrow> ImDrawCmd \<Rightarrow> ImVec2" where
  "clipMax drawData pcmd =
     (case ClipRect pcmd of (cx, cy, cz, cw) \<Rightarrow>
        ((cz - fst (DisplayPos drawData)) * fst (FramebufferScale drawData),
         (cw - snd (DisplayPos drawData)) * snd (FramebufferScale drawData)))"

text \<open>The body of the inner loop: one draw command.\<close>

definition render_cmd ::
  "ImGuiRenderer \<Rightarrow> ImDrawData \<Rightarrow> int \<Rightarrow> int \<Rightarrow> GLuint \<Rightarrow> ImDrawCmd \<Rightarrow> gl_state \<Rightarrow> gl_state" where
  "render_cmd r drawData fbWidth fbHeight vertexArrayObject pcmd s =
     (case UserCallback pcmd of
        Some ImDrawCallback_ResetRenderState \<Rightarrow>
          setupRenderStates r drawData fbWidth fbHeight vertexArrayObject s
      | Some (UserFunction callback) \<Rightarrow> callback s
      | None \<Rightarrow>
          if ElemCount pcmd \<noteq> 0 then
            (let idxBufferOffset = unat (IdxOffset pcmd) * sizeof_ImDrawIdx;
                 cmin = clipMin drawData pcmd;
                 cmax = clipMax drawData pcmd
             in if fst cmax \<le> fst cmin \<or> snd cmax \<le> snd cmin then s
                else
                  run [glScissor (word_of_int (int_of_float (fst cmin)))
                         (word_of_int (int_of_float (real_of_int fbHeight - snd cmax)))
                         (word_of_int (int_of_float (fst cmax - fst cmin)))
                         (word_of_int (int_of_float (snd cmax - snd cmin))),
                       glBindTexture (ucast (TextureId pcmd)),
                       glDrawElements GL_TRIANGLES (ElemCount pcmd)
                         (if sizeof_ImDrawIdx = 2 then GL_UNSIGNED_SHORT else GL_UNSIGNED_INT)
                         idxBufferOffset] s)
          else s)"

text \<open>
  The body of the outer loop: one command list, upload first and commands after. The
  byte sizes and the two capacities are \<open>GLsizeiptr\<close> values, pointer-sized signed
  integers: a 32-bit element count times 20 or 2 cannot overflow 64 bits, so they are
  modelled as \<open>int\<close>.
\<close>

definition vtxBufferSize :: "ImDrawList \<Rightarrow> GLsizeiptr" where
  "vtxBufferSize cmdList = int (length (VtxBuffer cmdList)) * int sizeof_ImDrawVert"

definition idxBufferSize :: "ImDrawList \<Rightarrow> GLsizeiptr" where
  "idxBufferSize cmdList = int (length (IdxBuffer cmdList)) * int sizeof_ImDrawIdx"

definition upload_buffers :: "ImDrawList \<Rightarrow> ImGuiRenderer \<times> gl_state \<Rightarrow> ImGuiRenderer \<times> gl_state" where
  "upload_buffers cmdList rs =
     (let (r, s) = rs;
          (r, s) = (if mVertexBufferSize r < vtxBufferSize cmdList then
                      (r\<lparr>mVertexBufferSize := vtxBufferSize cmdList\<rparr>,
                       glBufferData GL_ARRAY_BUFFER (vtxBufferSize cmdList) GL_STREAM_DRAW s)
                    else (r, s));
          (r, s) = (if mIndexBufferSize r < idxBufferSize cmdList then
                      (r\<lparr>mIndexBufferSize := idxBufferSize cmdList\<rparr>,
                       glBufferData GL_ELEMENT_ARRAY_BUFFER (idxBufferSize cmdList) GL_STREAM_DRAW s)
                    else (r, s));
          s = glBufferSubData GL_ARRAY_BUFFER (vtxBufferSize cmdList) s;
          s = glBufferSubData GL_ELEMENT_ARRAY_BUFFER (idxBufferSize cmdList) s
      in (r, s))"

definition render_cmd_list ::
  "ImDrawData \<Rightarrow> int \<Rightarrow> int \<Rightarrow> GLuint \<Rightarrow> ImDrawList \<Rightarrow> ImGuiRenderer \<times> gl_state
     \<Rightarrow> ImGuiRenderer \<times> gl_state" where
  "render_cmd_list drawData fbWidth fbHeight vertexArrayObject cmdList rs =
     (let (r, s) = upload_buffers cmdList rs
      in (r, fold (render_cmd r drawData fbWidth fbHeight vertexArrayObject) (CmdBuffer cmdList) s))"

text \<open>The framebuffer size as \<open>renderDrawList\<close> computes it from \<open>io\<close>.\<close>

definition fbWidth_of :: "ImGuiContext \<Rightarrow> int" where
  "fbWidth_of io = int_of_float (fst (DisplaySize io) * fst (DisplayFramebufferScale io))"

definition fbHeight_of :: "ImGuiContext \<Rightarrow> int" where
  "fbHeight_of io = int_of_float (snd (DisplaySize io) * snd (DisplayFramebufferScale io))"

text \<open>
  \<open>renderDrawList\<close>. The first argument is the name \<open>glGenVertexArrays\<close> returns, the
  second the \<open>io\<close> of the current context. The draw data is returned too, since
  \<open>ScaleClipRects\<close> changes it in place.
\<close>

definition renderDrawList ::
  "GLuint \<Rightarrow> ImGuiContext \<Rightarrow> ImDrawData \<Rightarrow> ImGuiRenderer \<Rightarrow> gl_state
     \<Rightarrow> ImDrawData \<times> ImGuiRenderer \<times> gl_state" where
  "renderDrawList vertexArrayObject io drawData r s =
     (let fbWidth = fbWidth_of io;
          fbHeight = fbHeight_of io
      in if fbWidth = 0 \<or> fbHeight = 0 then (drawData, r, s)
         else
           (let drawData = ScaleClipRects (DisplayFramebufferScale io) drawData;
                (b, s) = backup_gl_state s;
                s = glGenVertexArrays vertexArrayObject s;
                s = setupRenderStates r drawData fbWidth fbHeight vertexArrayObject s;
                (r, s) = fold (render_cmd_list drawData fbWidth fbHeight vertexArrayObject)
                           (CmdLists drawData) (r, s);
                s = glDeleteVertexArrays vertexArrayObject s;
                s = restore_gl_state b s
            in (drawData, r, s)))"

definition render :: "GLuint \<Rightarrow> ImGuiRenderer \<Rightarrow> ImGui \<Rightarrow> gl_state \<Rightarrow> ImGuiRenderer \<times> ImGui \<times> gl_state" where
  "render vertexArrayObject r im s =
     (let (drawData, r, s) = renderDrawList vertexArrayObject (GetIO im) (GetDrawData im) r s
      in (r, update_io (\<lambda>g. g\<lparr>DrawData := drawData\<rparr>) im, s))"

text \<open>
  A run of the renderer over several frames. Each frame brings the name of its
  vertex-array object, the \<open>io\<close> of the moment, its draw data and the graphics state it
  starts from; only the renderer is carried from one frame to the next.
\<close>

definition render_frames ::
  "(GLuint \<times> ImGuiContext \<times> ImDrawData \<times> gl_state) list \<Rightarrow> ImGuiRenderer \<Rightarrow> ImGuiRenderer" where
  "render_frames frames r =
     fold (\<lambda>(vao, io, drawData, s) r. fst (snd (renderDrawList vao io drawData r s))) frames r"

section \<open>Predicates of the statements\<close>

text \<open>The test of \<open>renderDrawList\<close> that skips a command: an empty clip rectangle.\<close>

definition degenerate_clip :: "ImDrawData \<Rightarrow> ImDrawCmd \<Rightarrow> bool" where
  "degenerate_clip drawData pcmd =
     (fst (clipMax drawData pcmd) \<le> fst (clipMin drawData pcmd) \<or>
      snd (clipMax drawData pcmd) \<le> snd (clipMin drawData pcmd))"

text \<open>
  A condition on the host's callbacks: a user callback returns with the texture unit
  active that it found active.
\<close>

definition callback_keeps_active_texture :: "ImDrawCmd \<Rightarrow> bool" where
  "callback_keeps_active_texture pcmd =
     (case UserCallback pcmd of
        Some (UserFunction callback) \<Rightarrow> (\<forall>s. active_texture (callback s) = active_texture s)
      | _ \<Rightarrow> True)"

definition callbacks_keep_active_texture :: "ImDrawData \<Rightarrow> bool" where
  "callbacks_keep_active_texture drawData =
     list_all (\<lambda>cmdList. list_all callback_keeps_active_texture (CmdBuffer cmdList))
       (CmdLists drawData)"

text \<open>
  The 2D texture bindings of the texture units that are not active, and a stronger
  condition on the host's callbacks: a user callback keeps the active unit and leaves
  the bindings of the other units alone.
\<close>

definition other_units :: "gl_state \<Rightarrow> GLenum \<Rightarrow> GLuint" where
  "other_units s = (texture_binding_2d s)(active_texture s := 0)"

definition callback_keeps_textures :: "ImDrawCmd \<Rightarrow> bool" where
  "callback_keeps_textures pcmd =
     (case UserCallback pcmd of
        Some (UserFunction callback) \<Rightarrow>
          (\<forall>s. active_texture (callback s) = active_texture s \<and>
               other_units (callback s) = other_units s)
      | _ \<Rightarrow> True)"

definition callbacks_keep_textures :: "ImDrawData \<Rightarrow> bool" where
  "callbacks_keep_textures drawData =
     list_all (\<lambda>cmdList. list_all callback_keeps_textures (CmdBuffer cmdList))
       (CmdLists drawData)"

text \<open>The four modifier reports that end every key event, in call order.\<close>

definition modifier_events :: "bool \<Rightarrow> 32 word \<Rightarrow> InputEvent list" where
  "modifier_events mac modifiers =
     [KeyEvent ImGuiKey_ModCtrl (testFlag modifiers (if mac then MetaModifier else ControlModifier)),
      KeyEvent ImGuiKey_ModShift (testFlag modifiers ShiftModifier),
      KeyEvent ImGuiKey_ModAlt (testFlag modifiers AltModifier),
      KeyEvent ImGuiKey_ModSuper (testFlag modifiers (if mac then ControlModifier else MetaModifier))]"

section \<open>Concrete inputs\<close>

definition example_window :: WindowWrapper where
  "example_window =
     \<lparr>win_size = (800, 600), devicePixelRatio = 1, isActive = True, cursorLocalPos = (10, 20),
      win_object = 1, cursorShape = ArrowCursor\<rparr>"

definition example_renderer :: ImGuiRenderer where
  "example_renderer =
     \<lparr>mWindow = example_window, mCtx = 0, mTime = 0, mGlVersion = 330, mFontTexture = 1,
      mShaderHandle = 1, mVertHandle = 2, mFragHandle = 3, mAttribLocationTex = 0,
      mAttribLocationProjMtx = 1, mAttribLocationVtxPos = 0, mAttribLocationVtxUV = 1,
      mAttribLocationVtxColor = 2, mVboHandle = 1, mElementsHandle = 2,
      mVertexBufferSize = 0, mIndexBufferSize = 0\<rparr>"

definition empty_drawData :: ImDrawData where
  "empty_drawData =
     \<lparr>CmdLists = [], DisplayPos = (0, 0), dd_DisplaySize = (800, 600), FramebufferScale = (1, 1)\<rparr>"

definition example_context :: ImGuiContext where
  "example_context =
     \<lparr>DisplaySize = (800, 600), DisplayFramebufferScale = (1, 1), DeltaTime = 0, ConfigFlags = 0,
      MouseDrawCursor = False, WantSetMousePos = False, MousePos = (0, 0), InputQueue = [],
      MouseCursor = ImGuiMouseCursor_Arrow, FontSize = 13, FrameCount = 0,
      DrawData = empty_drawData\<rparr>"

text \<open>
  Two contexts exist, 0 and 1, and 1 is the current one; \<open>example_renderer\<close> owns
  context 0.
\<close>

definition example_imgui :: ImGui where
  "example_imgui = \<lparr>GImGui = 1, Contexts = (\<lambda>_. example_context)\<rparr>"

definition example_vert :: ImDrawVert where
  "example_vert = \<lparr>pos = (0, 0), uv = (0, 0), col = 0xFFFFFFFF\<rparr>"

definition example_gl :: gl_state where
  "example_gl =
     \<lparr>active_texture = GL_TEXTURE0, current_program = 3, texture_binding_2d = (\<lambda>_. 5),
      array_buffer_binding = 4, vertex_array_binding = 6,
      element_array_buffer_binding = (\<lambda>_. 8),
      blend_src_rgb = GL_ONE, blend_dst_rgb = 0, blend_src_alpha = GL_ONE, blend_dst_alpha = 0,
      blend_equation_rgb = GL_FUNC_ADD, blend_equation_alpha = GL_FUNC_ADD,
      viewport = (0, 0, 800, 600), scissor_box = (0, 0, 800, 600),
      enabled = (\<lambda>_. False), gl_calls = []\<rparr>"

definition draw_cmd :: "real \<times> real \<times> real \<times> real \<Rightarrow> 64 word \<Rightarrow> ImDrawCmd" where
  "draw_cmd rect tex =
     \<lparr>ClipRect = rect, TextureId = tex, IdxOffset = 0, ElemCount = 3, UserCallback = None\<rparr>"

definition callback_cmd :: "ImDrawCallback \<Rightarrow> ImDrawCmd" where
  "callback_cmd cb =
     \<lparr>ClipRect = (0, 0, 0, 0), TextureId = 0, IdxOffset = 0, ElemCount = 0, UserCallback = Some cb\<rparr>"

definition example_list :: "ImDrawCmd list \<Rightarrow> ImDrawList" where
  "example_list cmds =
     \<lparr>CmdBuffer = cmds, IdxBuffer = [0, 1, 2], VtxBuffer = [example_vert, example_vert, example_vert]\<rparr>"

definition example_drawData :: "ImDrawCmd list \<Rightarrow> ImDrawData" where
  "example_drawData cmds =
     \<lparr>CmdLists = [example_list cmds], DisplayPos = (0, 0), dd_DisplaySize = (800, 600),
      FramebufferScale = (1, 1)\<rparr>"

section \<open>Collected unfolding rules\<close>

lemmas Key_defs =
  Key_Escape_def Key_Tab_def Key_Backspace_def Key_Return_def Key_Enter_def Key_Insert_def
  Key_Delete_def Key_Home_def Key_End_def Key_Left_def Key_Up_def Key_Right_def Key_Down_def
  Key_PageUp_def Key_PageDown_def Key_Space_def Key_A_def Key_B_def Key_C_def Key_V_def
  Key_X_def Key_Y_def Key_Z_def

lemmas gl_defs =
  issue_def glActiveTexture_def glEnable_def glDisable_def glBlendEquation_def
  glBlendEquationSeparate_def glBlendFuncSeparate_def glViewport_def glScissor_def
  glUseProgram_def glUniform1i_def glUniformMatrix4fv_def glGenVertexArrays_def
  glDeleteVertexArrays_def glBindVertexArray_def glBindBuffer_def
  glEnableVertexAttribArray_def glVertexAttribPointer_def glBindTexture_def
  glBufferData_def glBufferSubData_def glDrawElements_def

lemmas io_defs =
  add_input_event_def AddMousePosEvent_def AddMouseButtonEvent_def AddMouseWheelEvent_def
  AddKeyEvent_def AddInputCharacter_def update_io_def SetCurrentContext_def GetIO_def

lemmas example_defs =
  example_window_def example_renderer_def empty_drawData_def example_context_def
  example_imgui_def example_vert_def example_gl_def draw_cmd_def callback_cmd_def
  example_list_def example_drawData_def

section \<open>The input translator\<close>

lemma testFlag_bit:
  "testFlag w LeftButton = bit w 0"
  "testFlag w RightButton = bit w 1"
  "testFlag w MiddleButton = bit w 2"
  using and_exp_eq_0_iff_not_bit [of w 0] and_exp_eq_0_iff_not_bit [of w 1]
    and_exp_eq_0_iff_not_bit [of w 2]
  by (simp_all add: testFlag_def LeftButton_def RightButton_def MiddleButton_def)

lemma handlers_select_context:
  "GImGui (onMousePressedChange r buttons im) = mCtx r"
  "GImGui (onWheel r pixelDelta angleDelta im) = mCtx r"
  "GImGui (onKeyPressRelease mac r type key text modifiers im) = mCtx r"
  by (simp_all add: onMousePressedChange_def onWheel_def onKeyPressRelease_def
        report_modifiers_def Let_def io_defs split: option.splits list.splits)

lemma onMousePressedChange_mask:
  "InputQueue (Contexts (onMousePressedChange r buttons im) (mCtx r)) =
     InputQueue (Contexts im (mCtx r)) @
       [MouseButtonEvent ImGuiMouseButton_Left (bit buttons 0),
        MouseButtonEvent ImGuiMouseButton_Right (bit buttons 1),
        MouseButtonEvent ImGuiMouseButton_Middle (bit buttons 2)]"
  by (simp add: onMousePressedChange_def Let_def io_defs testFlag_bit)

lemma onWheel_scroll:
  "InputQueue (Contexts (onWheel r pixelDelta angleDelta im) (mCtx r)) =
     InputQueue (Contexts im (mCtx r)) @
       [MouseWheelEvent
          (if fst pixelDelta = 0 then real_of_int (fst angleDelta) / 120
           else real_of_int (fst pixelDelta) / FontSize (Contexts im (mCtx r)))
          (if snd pixelDelta = 0 then real_of_int (snd angleDelta) / 120
           else real_of_int (snd pixelDelta) / (5 * FontSize (Contexts im (mCtx r))))]"
  by (simp add: onWheel_def Let_def io_defs wheel_x_def wheel_y_def GetTextLineHeight_def)

lemma onKeyPressRelease_unmapped:
  assumes "keyMap key = None"
  shows "InputQueue (Contexts (onKeyPressRelease mac r type key text modifiers im) (mCtx r)) =
     InputQueue (Contexts im (mCtx r)) @
       (if type = KeyPress \<and> length text = 1 then [InputCharacter (hd text)] else []) @
       modifier_events mac modifiers"
  using assms
  by (cases "text"; cases "tl text")
     (simp_all add: onKeyPressRelease_def report_modifiers_def Let_def io_defs modifier_events_def
           split: list.split)

lemma keyMap_Key_B: "keyMap Key_B = None"
  by (simp add: keyMap_def Key_defs)

text \<open>
  Claim C9. For a mouse press, release or double-click event on the bound window, the
  three button reports appended to the input queue of the renderer's context are, in
  this order, left, right and middle, each with the value of its bit in the aggregate
  mask \<open>buttons()\<close> (bits 0, 1 and 2). The button that triggered the event, \<open>button\<close>,
  does not occur in the result.
\<close>

theorem mouse_event_buttons:
  assumes "watched = win_object (mWindow r)" and "t \<noteq> MouseMove"
  shows "InputQueue (Contexts (fst (eventFilter base mac r watched
            (QMouseEvent t button buttons) im)) (mCtx r)) =
     InputQueue (Contexts im (mCtx r)) @
       [MouseButtonEvent ImGuiMouseButton_Left (bit buttons 0),
        MouseButtonEvent ImGuiMouseButton_Right (bit buttons 1),
        MouseButtonEvent ImGuiMouseButton_Middle (bit buttons 2)]"
  using assms by (cases t) (simp_all add: eventFilter_def onMousePressedChange_mask)

text \<open>
  The left button is released while the right and the middle one are held: the mask
  is 6.
\<close>

theorem mouse_event_buttons_witness:
  "(1::nat) = win_object (mWindow example_renderer) \<and> MouseButtonRelease \<noteq> MouseMove \<and>
   InputQueue (Contexts (fst (eventFilter QObject_eventFilter False example_renderer 1
       (QMouseEvent MouseButtonRelease LeftButton 6) example_imgui)) (mCtx example_renderer)) =
     [MouseButtonEvent ImGuiMouseButton_Left False,
      MouseButtonEvent ImGuiMouseButton_Right True,
      MouseButtonEvent ImGuiMouseButton_Middle True]"
proof -
  have h: "(1::nat) = win_object (mWindow example_renderer)"
    by (simp add: example_renderer_def example_window_def)
  have t: "MouseButtonRelease \<noteq> MouseMove" by simp
  have q: "InputQueue (Contexts example_imgui (mCtx example_renderer)) = []"
    by (simp add: example_imgui_def example_context_def)
  from mouse_event_buttons [OF h t, of QObject_eventFilter False LeftButton 6 example_imgui] h
  show ?thesis by (simp add: q)
qed

text \<open>
  Claim C2. For a wheel event on the bound window, one wheel report is appended to the
  input queue of the renderer's context. Its horizontal value is the angle delta's
  \<open>x\<close> over 120 when the pixel delta's \<open>x\<close> is zero, and the pixel delta's \<open>x\<close> over the
  text line height otherwise; its vertical value is the angle delta's \<open>y\<close> over 120 when
  the pixel delta's \<open>y\<close> is zero, and the pixel delta's \<open>y\<close> over five times the text
  line height otherwise. Each axis reads its own components only. The line height is
  the font size of the renderer's context. (The quotients are those of the reals; the
  source computes them in floating point.)
\<close>

theorem wheel_event_scroll:
  assumes "watched = win_object (mWindow r)"
  shows "InputQueue (Contexts (fst (eventFilter base mac r watched
            (QWheelEvent pixelDelta angleDelta) im)) (mCtx r)) =
     InputQueue (Contexts im (mCtx r)) @
       [MouseWheelEvent
          (if fst pixelDelta = 0 then real_of_int (fst angleDelta) / 120
           else real_of_int (fst pixelDelta) / FontSize (Contexts im (mCtx r)))
          (if snd pixelDelta = 0 then real_of_int (snd angleDelta) / 120
           else real_of_int (snd pixelDelta) / (5 * FontSize (Contexts im (mCtx r))))]"
  using assms by (simp add: eventFilter_def onWheel_scroll)

text \<open>
  No pixel delta on the horizontal axis and an angle delta of 240 there: two notches.
  A pixel delta of 130 on the vertical axis with a line height of 13: two units, whatever
  the angle delta is.
\<close>

theorem wheel_event_scroll_witness:
  "(1::nat) = win_object (mWindow example_renderer) \<and>
   InputQueue (Contexts (fst (eventFilter QObject_eventFilter False example_renderer 1
       (QWheelEvent (0, 130) (240, 960)) example_imgui)) (mCtx example_renderer)) =
     [MouseWheelEvent 2 2]"
proof -
  have h: "(1::nat) = win_object (mWindow example_renderer)"
    by (simp add: example_renderer_def example_window_def)
  have q: "InputQueue (Contexts example_imgui (mCtx example_renderer)) = []"
    "FontSize (Contexts example_imgui (mCtx example_renderer)) = 13"
    by (simp_all add: example_imgui_def example_context_def)
  from wheel_event_scroll [OF h, of QObject_eventFilter False "(0, 130)" "(240, 960)" example_imgui] h
  show ?thesis by (simp add: q)
qed

text \<open>
  Claim C5, as stated, fails: a key press of \<open>B\<close>, which the key map does not hold,
  with the text "b" and no modifier, on the bound window, appends five reports to an
  empty input queue: the character and the four modifier states.
\<close>

theorem unmapped_key_counterexample:
  "keyMap Key_B = None \<and>
   InputQueue (Contexts example_imgui (mCtx example_renderer)) = [] \<and>
   InputQueue (Contexts (fst (eventFilter QObject_eventFilter False example_renderer 1
       (QKeyEvent KeyPress Key_B [0x62] 0) example_imgui)) (mCtx example_renderer)) =
     [InputCharacter 0x62, KeyEvent ImGuiKey_ModCtrl False, KeyEvent ImGuiKey_ModShift False,
      KeyEvent ImGuiKey_ModAlt False, KeyEvent ImGuiKey_ModSuper False]"
  by (simp add: keyMap_Key_B eventFilter_def onKeyPressRelease_def report_modifiers_def Let_def
        io_defs example_imgui_def example_renderer_def example_window_def example_context_def
        testFlag_def)

text \<open>
  Claim C5, amended. For a key press or release on the bound window whose key code is
  not in the key map, no press or release of a mapped logical key is reported. What is
  appended to the input queue of the renderer's context is: the character of the
  event's text, when the event is a press and the text is one code unit long; then the
  four modifier states, control, shift, alt and super, read from the event's modifier
  mask.
\<close>

theorem unmapped_key_events:
  assumes "watched = win_object (mWindow r)" and "type \<noteq> ShortcutOverride"
    and "keyMap key = None"
  shows "InputQueue (Contexts (fst (eventFilter base mac r watched
            (QKeyEvent type key text modifiers) im)) (mCtx r)) =
     InputQueue (Contexts im (mCtx r)) @
       (if type = KeyPress \<and> length text = 1 then [InputCharacter (hd text)] else []) @
       modifier_events mac modifiers"
  using assms
  by (cases type) (simp_all add: eventFilter_def onKeyPressRelease_unmapped)

text \<open>The release of \<open>B\<close> with the shift key held reports the modifiers alone.\<close>

theorem unmapped_key_events_witness:
  "(1::nat) = win_object (mWindow example_renderer) \<and> KeyRelease \<noteq> ShortcutOverride \<and>
   keyMap Key_B = None \<and>
   InputQueue (Contexts (fst (eventFilter QObject_eventFilter False example_renderer 1
       (QKeyEvent KeyRelease Key_B [0x42] ShiftModifier) example_imgui)) (mCtx example_renderer)) =
     [KeyEvent ImGuiKey_ModCtrl False, KeyEvent ImGuiKey_ModShift True,
      KeyEvent ImGuiKey_ModAlt False, KeyEvent ImGuiKey_ModSuper False]"
proof -
  have h: "(1::nat) = win_object (mWindow example_renderer)"
    by (simp add: example_renderer_def example_window_def)
  have t: "KeyRelease \<noteq> ShortcutOverride" by simp
  have q: "InputQueue (Contexts example_imgui (mCtx example_renderer)) = []"
    by (simp add: example_imgui_def example_context_def)
  have m: "modifier_events False ShiftModifier =
      [KeyEvent ImGuiKey_ModCtrl False, KeyEvent ImGuiKey_ModShift True,
       KeyEvent ImGuiKey_ModAlt False, KeyEvent ImGuiKey_ModSuper False]"
    by (simp add: modifier_events_def testFlag_def ShiftModifier_def ControlModifier_def
          AltModifier_def MetaModifier_def)
  from unmapped_key_events [OF h t keyMap_Key_B, of QObject_eventFilter False "[0x42]"
      ShiftModifier example_imgui] h keyMap_Key_B
  show ?thesis by (simp add: q m)
qed

text \<open>
  Claim C10. The event filter returns what the event filter of the base class returns
  for the same object and event; with the toolkit's base implementation that is
  \<open>False\<close>, so the event goes on to its normal processing. An event for an object other
  than the bound window leaves the library's state, input queues and current context
  included, as it was.
\<close>

theorem eventFilter_result:
  "snd (eventFilter base mac r watched event im) = base watched event \<and>
   \<not> snd (eventFilter QObject_eventFilter mac r watched event im) \<and>
   (watched \<noteq> win_object (mWindow r) \<longrightarrow> fst (eventFilter base mac r watched event im) = im)"
  by (simp add: eventFilter_def QObject_eventFilter_def)

text \<open>A press of \<open>A\<close>, which the key map holds, sent to the object 2.\<close>

theorem eventFilter_result_witness:
  "(2::nat) \<noteq> win_object (mWindow example_renderer) \<and>
   snd (eventFilter QObject_eventFilter False example_renderer 2
     (QKeyEvent KeyPress Key_A [0x61] 0) example_imgui) = False \<and>
   fst (eventFilter QObject_eventFilter False example_renderer 2
     (QKeyEvent KeyPress Key_A [0x61] 0) example_imgui) = example_imgui"
proof -
  have h: "(2::nat) \<noteq> win_object (mWindow example_renderer)"
    by (simp add: example_renderer_def example_window_def)
  from eventFilter_result [of QObject_eventFilter False example_renderer 2
      "QKeyEvent KeyPress Key_A [0x61] 0" example_imgui] h
  show ?thesis by (simp add: QObject_eventFilter_def)
qed

section \<open>The frame driver\<close>

lemma newFrame_io:
  "GImGui (snd (newFrame t r im)) = GImGui im"
  "DeltaTime (GetIO (snd (newFrame t r im))) =
     (if 0 < mTime r then real_of_int t / 1000 - mTime r else 1 / 60)"
  "mTime (fst (newFrame t r im)) = real_of_int t / 1000"
  by (simp_all add: newFrame_def Let_def io_defs NewFrame_def setCursorPos_def
        updateCursorShape_def split: option.splits)

text \<open>
  Claim C3, as stated, fails in its last part: the clock read is the wall clock, and a
  second call that reads it one second earlier than the first call did (the clock was
  set back in between) pushes a delta-time of minus one second.
\<close>

theorem newFrame_negative_delta_counterexample:
  "mTime example_renderer = 0 \<and>
   DeltaTime (GetIO (snd (newFrame 1000 (fst (newFrame 2000 example_renderer example_imgui))
       (snd (newFrame 2000 example_renderer example_imgui))))) = - 1"
  by (simp add: newFrame_io example_renderer_def)

text \<open>
  Claim C3, amended. On a renderer that has never run \<open>newFrame\<close> (\<open>mTime\<close> is still
  zero), the call pushes a delta-time of 1/60 second whatever the clock reads. A call
  that follows a call with the clock reading \<open>t1\<close> (milliseconds since the epoch), itself
  reading \<open>t2\<close>, pushes \<open>(t2 - t1) / 1000\<close> seconds when \<open>t1\<close> is positive, and 1/60 again
  otherwise. Nothing bounds the difference from below: for a positive \<open>t1\<close> it is
  non-negative exactly when \<open>t1 \<le> t2\<close>, that is, when the clock did not go backwards.
  The delta-time goes to the \<open>io\<close> of the current context.
\<close>

theorem newFrame_delta_time:
  "(mTime r = 0 \<longrightarrow> DeltaTime (GetIO (snd (newFrame t1 r im))) = 1 / 60) \<and>
   DeltaTime (GetIO (snd (newFrame t2 (fst (newFrame t1 r im)) (snd (newFrame t1 r im))))) =
     (if 0 < t1 then real_of_int (t2 - t1) / 1000 else 1 / 60) \<and>
   (0 < t1 \<longrightarrow>
      (0 \<le> DeltaTime (GetIO (snd (newFrame t2 (fst (newFrame t1 r im))
               (snd (newFrame t1 r im)))))) = (t1 \<le> t2))"
  by (simp add: newFrame_io diff_divide_distrib)

text \<open>Two frames 16 milliseconds apart.\<close>

theorem newFrame_delta_time_witness:
  "mTime example_renderer = 0 \<and> (0::int) < 5000 \<and>
   DeltaTime (GetIO (snd (newFrame 5000 example_renderer example_imgui))) = 1 / 60 \<and>
   DeltaTime (GetIO (snd (newFrame 5016 (fst (newFrame 5000 example_renderer example_imgui))
       (snd (newFrame 5000 example_renderer example_imgui))))) = 2 / 125"
proof -
  have h: "mTime example_renderer = 0" by (simp add: example_renderer_def)
  from newFrame_delta_time [of example_renderer 5000 example_imgui 5016] h
  show ?thesis by simp
qed

text \<open>
  Claim C4 holds of the three input handlers (\<open>handlers_select_context\<close>) and fails of
  \<open>newFrame\<close> and \<open>render\<close>, which never select a context. With context 1 current, a
  frame of the renderer that owns context 0 leaves context 1 current, leaves context 0
  as it was, and writes the delta-time, the pointer position and the new frame into
  context 1; \<open>render\<close> leaves context 1 current as well.
\<close>

theorem newFrame_foreign_context:
  "mCtx example_renderer = 0 \<and> GImGui example_imgui = 1 \<and>
   GImGui (snd (newFrame 1000 example_renderer example_imgui)) = 1 \<and>
   Contexts (snd (newFrame 1000 example_renderer example_imgui)) 0 = Contexts example_imgui 0 \<and>
   DeltaTime (Contexts (snd (newFrame 1000 example_renderer example_imgui)) 1) = 1 / 60 \<and>
   FrameCount (Contexts (snd (newFrame 1000 example_renderer example_imgui)) 1) = 1 \<and>
   InputQueue (Contexts (snd (newFrame 1000 example_renderer example_imgui)) 1) =
     [MousePosEvent 10 20] \<and>
   GImGui (fst (snd (render 9 example_renderer example_imgui example_gl))) = 1"
  by (simp add: newFrame_def Let_def io_defs NewFrame_def setCursorPos_def
        updateCursorShape_def example_renderer_def example_imgui_def example_context_def
        example_window_def testFlag_def cursorMap_def render_def split_def)

section \<open>The draw-list rasterizer\<close>

subsection \<open>A zero-sized framebuffer\<close>

text \<open>
  Claim C7. When the framebuffer width or height computed from \<open>io\<close> is zero,
  \<open>renderDrawList\<close> returns the draw data, the renderer and the graphics state it was
  given: no clip rectangle is scaled, no member of the renderer changes, and no call
  is added to the calls issued. The function has no error result; this is one of its
  two ordinary paths.
\<close>

theorem renderDrawList_zero_framebuffer:
  assumes "fbWidth_of io = 0 \<or> fbHeight_of io = 0"
  shows "renderDrawList vao io drawData r s = (drawData, r, s)"
  using assms by (simp add: renderDrawList_def Let_def)

text \<open>A window 800 wide and 0 high.\<close>

theorem renderDrawList_zero_framebuffer_witness:
  "fbHeight_of (example_context\<lparr>DisplaySize := (800, 0)\<rparr>) = 0 \<and>
   renderDrawList 9 (example_context\<lparr>DisplaySize := (800, 0)\<rparr>)
     (example_drawData [draw_cmd (0, 0, 800, 600) 7]) example_renderer example_gl =
   (example_drawData [draw_cmd (0, 0, 800, 600) 7], example_renderer, example_gl)"
proof -
  have h: "fbHeight_of (example_context\<lparr>DisplaySize := (800, 0)\<rparr>) = 0"
    by (simp add: fbHeight_of_def int_of_float_def example_context_def)
  then have "fbWidth_of (example_context\<lparr>DisplaySize := (800, 0)\<rparr>) = 0 \<or>
      fbHeight_of (example_context\<lparr>DisplaySize := (800, 0)\<rparr>) = 0" by simp
  from renderDrawList_zero_framebuffer [OF this] h show ?thesis by simp
qed

subsection \<open>An empty clip rectangle\<close>

lemma render_cmd_degenerate:
  "UserCallback pcmd = None \<Longrightarrow> degenerate_clip drawData pcmd \<Longrightarrow>
   render_cmd r drawData fbWidth fbHeight vao pcmd s = s"
  by (simp add: render_cmd_def degenerate_clip_def Let_def)

text \<open>
  Claim C6. A draw command without user callback whose clip rectangle in framebuffer
  space has its maximum at or below its minimum on an axis leaves the graphics state
  as it is, the list of calls issued included: no scissor, no texture bind, no draw.
  The command list that holds it is processed as the same list without the command:
  the commands before it and after it have their effect.
\<close>

theorem degenerate_clip_skipped:
  assumes "UserCallback pcmd = None" and "degenerate_clip drawData pcmd"
  shows "render_cmd r drawData fbWidth fbHeight vao pcmd s = s \<and>
     render_cmd_list drawData fbWidth fbHeight vao
       (cmdList\<lparr>CmdBuffer := before @ pcmd # after\<rparr>) rs =
     render_cmd_list drawData fbWidth fbHeight vao
       (cmdList\<lparr>CmdBuffer := before @ after\<rparr>) rs"
  using assms
  by (simp add: render_cmd_degenerate render_cmd_list_def upload_buffers_def split_def Let_def
        vtxBufferSize_def idxBufferSize_def)

text \<open>
  A command of width zero followed by a command that covers the display: the calls
  issued for the list are the uploads and the scissor, bind and draw of the second
  command.
\<close>

theorem degenerate_clip_skipped_witness:
  "UserCallback (draw_cmd (10, 10, 10, 50) 7) = None \<and>
   degenerate_clip (example_drawData []) (draw_cmd (10, 10, 10, 50) 7) \<and>
   gl_calls (snd (render_cmd_list (example_drawData []) 800 600 9
       (example_list [draw_cmd (10, 10, 10, 50) 7, draw_cmd (0, 0, 800, 600) 8])
       (example_renderer, example_gl))) =
     [GlBufferData GL_ARRAY_BUFFER 60 GL_STREAM_DRAW,
      GlBufferData GL_ELEMENT_ARRAY_BUFFER 6 GL_STREAM_DRAW,
      GlBufferSubData GL_ARRAY_BUFFER 60,
      GlBufferSubData GL_ELEMENT_ARRAY_BUFFER 6,
      GlScissor (0, 0, 800, 600), GlBindTexture 8,
      GlDrawElements GL_TRIANGLES 3 GL_UNSIGNED_SHORT 0]"
proof -
  have h1: "UserCallback (draw_cmd (10, 10, 10, 50) 7) = None"
    by (simp add: draw_cmd_def)
  have h2: "degenerate_clip (example_drawData []) (draw_cmd (10, 10, 10, 50) 7)"
    by (simp add: degenerate_clip_def clipMin_def clipMax_def draw_cmd_def example_drawData_def)
  have l: "example_list [draw_cmd (10, 10, 10, 50) 7, draw_cmd (0, 0, 800, 600) 8] =
      (example_list [])\<lparr>CmdBuffer := [] @ draw_cmd (10, 10, 10, 50) 7 # [draw_cmd (0, 0, 800, 600) 8]\<rparr>"
    by (simp add: example_list_def)
  have "gl_calls (snd (render_cmd_list (example_drawData []) 800 600 9
       ((example_list [])\<lparr>CmdBuffer := [] @ [draw_cmd (0, 0, 800, 600) 8]\<rparr>)
       (example_renderer, example_gl))) =
     [GlBufferData GL_ARRAY_BUFFER 60 GL_STREAM_DRAW,
      GlBufferData GL_ELEMENT_ARRAY_BUFFER 6 GL_STREAM_DRAW,
      GlBufferSubData GL_ARRAY_BUFFER 60,
      GlBufferSubData GL_ELEMENT_ARRAY_BUFFER 6,
      GlScissor (0, 0, 800, 600), GlBindTexture 8,
      GlDrawElements GL_TRIANGLES 3 GL_UNSIGNED_SHORT 0]"
    by (simp add: render_cmd_list_def upload_buffers_def render_cmd_def Let_def split_def
          clipMin_def clipMax_def run_def gl_defs example_defs vtxBufferSize_def idxBufferSize_def
          sizeof_ImDrawVert_def sizeof_ImDrawIdx_def int_of_float_def)
  with degenerate_clip_skipped [OF h1 h2, where r = example_renderer and fbWidth = 800
      and fbHeight = 600 and vao = 9 and s = example_gl and cmdList = "example_list []"
      and before = "[]" and after = "[draw_cmd (0, 0, 800, 600) 8]"
      and rs = "(example_renderer, example_gl)"]
    h1 h2 l
  show ?thesis by simp
qed

subsection \<open>Buffer capacities\<close>

lemma upload_buffers_capacity:
  "mVertexBufferSize (fst (upload_buffers cmdList (r, s))) =
     max (mVertexBufferSize r) (vtxBufferSize cmdList)"
  "mIndexBufferSize (fst (upload_buffers cmdList (r, s))) =
     max (mIndexBufferSize r) (idxBufferSize cmdList)"
  by (simp_all add: upload_buffers_def Let_def max_def)

lemma render_cmd_list_capacity:
  "mVertexBufferSize (fst (render_cmd_list drawData fbW fbH vao cmdList (r, s))) =
     max (mVertexBufferSize r) (vtxBufferSize cmdList)"
  "mIndexBufferSize (fst (render_cmd_list drawData fbW fbH vao cmdList (r, s))) =
     max (mIndexBufferSize r) (idxBufferSize cmdList)"
  using upload_buffers_capacity [of cmdList r s]
  by (simp_all add: render_cmd_list_def split_def Let_def)

lemma render_cmd_lists_capacity:
  "mVertexBufferSize (fst rs) \<le>
     mVertexBufferSize (fst (fold (render_cmd_list drawData fbW fbH vao) segs rs)) \<and>
   mIndexBufferSize (fst rs) \<le>
     mIndexBufferSize (fst (fold (render_cmd_list drawData fbW fbH vao) segs rs))"
proof (induction segs arbitrary: rs)
  case Nil
  then show ?case by simp
next
  case (Cons cmdList segs)
  obtain r s where rs: "rs = (r, s)" by (cases rs)
  have "mVertexBufferSize r \<le>
      mVertexBufferSize (fst (render_cmd_list drawData fbW fbH vao cmdList (r, s)))"
    and "mIndexBufferSize r \<le>
      mIndexBufferSize (fst (render_cmd_list drawData fbW fbH vao cmdList (r, s)))"
    by (simp_all add: render_cmd_list_capacity)
  with Cons [of "render_cmd_list drawData fbW fbH vao cmdList (r, s)"] show ?case
    by (simp add: rs)
qed

lemma renderDrawList_capacity:
  "mVertexBufferSize r \<le> mVertexBufferSize (fst (snd (renderDrawList vao io drawData r s))) \<and>
   mIndexBufferSize r \<le> mIndexBufferSize (fst (snd (renderDrawList vao io drawData r s)))"
  using render_cmd_lists_capacity [of "(r, x)" for x]
  by (simp add: renderDrawList_def Let_def split_def)

lemma render_frames_capacity:
  "mVertexBufferSize r \<le> mVertexBufferSize (render_frames frames r) \<and>
   mIndexBufferSize r \<le> mIndexBufferSize (render_frames frames r)"
proof (induction frames arbitrary: r)
  case Nil
  then show ?case by (simp add: render_frames_def)
next
  case (Cons f frames)
  obtain vao io drawData s where f: "f = (vao, io, drawData, s)" by (cases f) auto
  have step: "render_frames (f # frames) r =
      render_frames frames (fst (snd (renderDrawList vao io drawData r s)))"
    by (simp add: render_frames_def f)
  from Cons [of "fst (snd (renderDrawList vao io drawData r s))"]
    renderDrawList_capacity [of r vao io drawData s]
  show ?case unfolding step by linarith
qed

text \<open>
  Claim C8. Processing one command list sets the vertex capacity to the larger of its
  old value and the byte size of the list's vertex data, and the index capacity to the
  larger of its old value and the byte size of the list's index data: a capacity
  changes only when the data is larger, and then to the data's size. Over any sequence
  of \<open>renderDrawList\<close> invocations on one renderer, both capacities at the end are at
  least what they were at the start.
\<close>

theorem buffer_capacity_grows:
  "mVertexBufferSize (fst (render_cmd_list drawData fbW fbH vao cmdList (r, s))) =
     max (mVertexBufferSize r) (vtxBufferSize cmdList) \<and>
   mIndexBufferSize (fst (render_cmd_list drawData fbW fbH vao cmdList (r, s))) =
     max (mIndexBufferSize r) (idxBufferSize cmdList) \<and>
   mVertexBufferSize r \<le> mVertexBufferSize (render_frames frames r) \<and>
   mIndexBufferSize r \<le> mIndexBufferSize (render_frames frames r)"
  using render_frames_capacity [of r frames] by (simp add: render_cmd_list_capacity)

subsection \<open>The graphics state found at entry\<close>

lemma active_texture_gl:
  "active_texture (glEnable cap s) = active_texture s"
  "active_texture (glDisable cap s) = active_texture s"
  "active_texture (glBlendEquation m s) = active_texture s"
  "active_texture (glBlendEquationSeparate m1 m2 s) = active_texture s"
  "active_texture (glBlendFuncSeparate a b c d s) = active_texture s"
  "active_texture (glViewport x y w h s) = active_texture s"
  "active_texture (glScissor x y w h s) = active_texture s"
  "active_texture (glUseProgram prog s) = active_texture s"
  "active_texture (glUniform1i l v s) = active_texture s"
  "active_texture (glUniformMatrix4fv l m' s) = active_texture s"
  "active_texture (glGenVertexArrays n s) = active_texture s"
  "active_texture (glDeleteVertexArrays n s) = active_texture s"
  "active_texture (glBindVertexArray n s) = active_texture s"
  "active_texture (glBindBuffer t n s) = active_texture s"
  "active_texture (glEnableVertexAttribArray n s) = active_texture s"
  "active_texture (glVertexAttribPointer i sz ty nm st ptr s) = active_texture s"
  "active_texture (glBindTexture n s) = active_texture s"
  "active_texture (glBufferData t z u s) = active_texture s"
  "active_texture (glBufferSubData t z s) = active_texture s"
  "active_texture (glDrawElements md c ty off s) = active_texture s"
  by (simp_all add: gl_defs split: gl_buffer_target.split)

lemma active_texture_setupRenderStates:
  "active_texture (setupRenderStates r drawData fbWidth fbHeight vao s) = active_texture s"
  by (simp add: setupRenderStates_def run_def active_texture_gl)

lemma active_texture_render_cmd:
  "callback_keeps_active_texture pcmd \<Longrightarrow>
   active_texture (render_cmd r drawData fbWidth fbHeight vao pcmd s) = active_texture s"
  by (simp add: render_cmd_def callback_keeps_active_texture_def run_def Let_def
        active_texture_gl active_texture_setupRenderStates
      split: option.splits ImDrawCallback.splits)

lemma active_texture_render_cmds:
  "list_all callback_keeps_active_texture cmds \<Longrightarrow>
   active_texture (fold (render_cmd r drawData fbWidth fbHeight vao) cmds s) = active_texture s"
  by (induction cmds arbitrary: s) (simp_all add: active_texture_render_cmd)

lemma active_texture_upload_buffers:
  "active_texture (snd (upload_buffers cmdList (r, s))) = active_texture s"
  by (simp add: upload_buffers_def Let_def active_texture_gl)

lemma active_texture_render_cmd_list:
  "list_all callback_keeps_active_texture (CmdBuffer cmdList) \<Longrightarrow>
   active_texture (snd (render_cmd_list drawData fbWidth fbHeight vao cmdList (r, s))) =
     active_texture s"
  using active_texture_upload_buffers [of cmdList r s]
  by (simp add: render_cmd_list_def split_def Let_def active_texture_render_cmds)

lemma active_texture_render_cmd_lists:
  "list_all (\<lambda>cmdList. list_all callback_keeps_active_texture (CmdBuffer cmdList)) segs \<Longrightarrow>
   active_texture (snd (fold (render_cmd_list drawData fbWidth fbHeight vao) segs rs)) =
     active_texture (snd rs)"
proof (induction segs arbitrary: rs)
  case Nil
  then show ?case by simp
next
  case (Cons cmdList segs)
  obtain r s where rs: "rs = (r, s)" by (cases rs)
  from Cons show ?case
    using active_texture_render_cmd_list [of cmdList drawData fbWidth fbHeight vao r s]
    by (simp add: rs)
qed

lemma callback_keeps_scale_cmd:
  "callback_keeps_active_texture (scale_cmd fb_scale cmd) = callback_keeps_active_texture cmd"
  by (simp add: scale_cmd_def callback_keeps_active_texture_def split: prod.splits)

lemma callbacks_keep_ScaleClipRects:
  "callbacks_keep_active_texture (ScaleClipRects fb_scale drawData) =
     callbacks_keep_active_texture drawData"
  by (simp add: callbacks_keep_active_texture_def ScaleClipRects_def list_all_iff
        callback_keeps_scale_cmd)

lemma restore_gl_state_fields:
  assumes "active_texture s = GL_TEXTURE0"
  shows "active_texture (restore_gl_state b s) = lastActiveTexture b"
    and "current_program (restore_gl_state b s) = lastProgram b"
    and "texture_binding_2d (restore_gl_state b s) GL_TEXTURE0 = lastTexture b"
    and "array_buffer_binding (restore_gl_state b s) = lastArrayBuffer b"
    and "get_GL_ELEMENT_ARRAY_BUFFER_BINDING (restore_gl_state b s) = lastElementArrayBuffer b"
    and "vertex_array_binding (restore_gl_state b s) = lastVertexArray b"
    and "blend_src_rgb (restore_gl_state b s) = lastBlendSrcRgb b"
    and "blend_dst_rgb (restore_gl_state b s) = lastBlendDstRgb b"
    and "blend_src_alpha (restore_gl_state b s) = lastBlendSrcAlpha b"
    and "blend_dst_alpha (restore_gl_state b s) = lastBlendDstAlpha b"
    and "blend_equation_rgb (restore_gl_state b s) = lastBlendEquationRgb b"
    and "blend_equation_alpha (restore_gl_state b s) = lastBlendEquationAlpha b"
    and "viewport (restore_gl_state b s) = lastViewport b"
    and "scissor_box (restore_gl_state b s) = lastScissorBox b"
    and "enabled (restore_gl_state b s) GL_BLEND = lastEnableBlend b"
    and "enabled (restore_gl_state b s) GL_CULL_FACE = lastEnableCullFace b"
    and "enabled (restore_gl_state b s) GL_DEPTH_TEST = lastEnableDepthTest b"
    and "enabled (restore_gl_state b s) GL_SCISSOR_TEST = lastEnableScissorTest b"
  using assms
  by (simp_all add: restore_gl_state_def run_def gl_defs set_enabled_def
        get_GL_ELEMENT_ARRAY_BUFFER_BINDING_def split: prod.splits)

lemma backup_gl_state_fields:
  "snd (backup_gl_state s) = glActiveTexture GL_TEXTURE0 s"
  "lastActiveTexture (fst (backup_gl_state s)) = active_texture s"
  "lastProgram (fst (backup_gl_state s)) = current_program s"
  "lastTexture (fst (backup_gl_state s)) = texture_binding_2d s GL_TEXTURE0"
  "lastArrayBuffer (fst (backup_gl_state s)) = array_buffer_binding s"
  "lastElementArrayBuffer (fst (backup_gl_state s)) = get_GL_ELEMENT_ARRAY_BUFFER_BINDING s"
  "lastVertexArray (fst (backup_gl_state s)) = vertex_array_binding s"
  "lastBlendSrcRgb (fst (backup_gl_state s)) = blend_src_rgb s"
  "lastBlendDstRgb (fst (backup_gl_state s)) = blend_dst_rgb s"
  "lastBlendSrcAlpha (fst (backup_gl_state s)) = blend_src_alpha s"
  "lastBlendDstAlpha (fst (backup_gl_state s)) = blend_dst_alpha s"
  "lastBlendEquationRgb (fst (backup_gl_state s)) = blend_equation_rgb s"
  "lastBlendEquationAlpha (fst (backup_gl_state s)) = blend_equation_alpha s"
  "lastViewport (fst (backup_gl_state s)) = viewport s"
  "lastScissorBox (fst (backup_gl_state s)) = scissor_box s"
  "lastEnableBlend (fst (backup_gl_state s)) = enabled s GL_BLEND"
  "lastEnableCullFace (fst (backup_gl_state s)) = enabled s GL_CULL_FACE"
  "lastEnableDepthTest (fst (backup_gl_state s)) = enabled s GL_DEPTH_TEST"
  "lastEnableScissorTest (fst (backup_gl_state s)) = enabled s GL_SCISSOR_TEST"
  by (simp_all add: backup_gl_state_def Let_def gl_defs glIsEnabled_def
        get_GL_TEXTURE_BINDING_2D_def get_GL_ELEMENT_ARRAY_BUFFER_BINDING_def)

text \<open>The state just before the restore, and \<open>renderDrawList\<close> as the restore on it.\<close>

lemma renderDrawList_gl:
  assumes "fbWidth_of io \<noteq> 0" "fbHeight_of io \<noteq> 0"
  shows "snd (snd (renderDrawList vao io drawData r s)) =
     restore_gl_state (fst (backup_gl_state s))
       (glDeleteVertexArrays vao
         (snd (fold (render_cmd_list (ScaleClipRects (DisplayFramebufferScale io) drawData)
                      (fbWidth_of io) (fbHeight_of io) vao)
                 (CmdLists (ScaleClipRects (DisplayFramebufferScale io) drawData))
                 (r, setupRenderStates r (ScaleClipRects (DisplayFramebufferScale io) drawData)
                       (fbWidth_of io) (fbHeight_of io) vao
                       (glGenVertexArrays vao (snd (backup_gl_state s)))))))"
  using assms
  by (simp add: renderDrawList_def Let_def split_def)

lemma renderDrawList_active_before_restore:
  assumes "callbacks_keep_active_texture drawData"
  shows "active_texture (glDeleteVertexArrays vao
         (snd (fold (render_cmd_list (ScaleClipRects sc drawData) fbW fbH vao)
                 (CmdLists (ScaleClipRects sc drawData))
                 (r, setupRenderStates r (ScaleClipRects sc drawData) fbW fbH vao
                       (glGenVertexArrays vao (snd (backup_gl_state s))))))) = GL_TEXTURE0"
proof -
  have "callbacks_keep_active_texture (ScaleClipRects sc drawData)"
    using assms by (simp add: callbacks_keep_ScaleClipRects)
  then have "list_all (\<lambda>cmdList. list_all callback_keeps_active_texture (CmdBuffer cmdList))
      (CmdLists (ScaleClipRects sc drawData))"
    by (simp add: callbacks_keep_active_texture_def)
  then show ?thesis
    by (simp add: active_texture_gl active_texture_render_cmd_lists
         active_texture_setupRenderStates backup_gl_state_fields(1))
       (simp add: glActiveTexture_def issue_def)
qed

text \<open>
  Claim C1, as stated, fails when a user callback of the draw data leaves another
  texture unit active. The restore binds the saved texture on the unit that is active
  at that moment and only then switches back to the unit saved. With unit 0 active at
  entry and texture 5 bound there, a draw command with texture 7 followed by a callback
  that makes unit 1 active ends with unit 0 active and texture 7 bound on it.
\<close>

theorem active_texture_callback_counterexample:
  "fbWidth_of example_context = 800 \<and> fbHeight_of example_context = 600 \<and>
   get_GL_TEXTURE_BINDING_2D example_gl = 5 \<and>
   get_GL_TEXTURE_BINDING_2D
     (snd (snd (renderDrawList 9 example_context
        (example_drawData [draw_cmd (0, 0, 800, 600) 7,
                           callback_cmd (UserFunction (glActiveTexture GL_TEXTURE1))])
        example_renderer example_gl))) = 7"
  by (simp add: renderDrawList_def Let_def split_def fbWidth_of_def fbHeight_of_def
        int_of_float_def example_defs ScaleClipRects_def scale_cmd_def backup_gl_state_def
        restore_gl_state_def setupRenderStates_def run_def gl_defs render_cmd_list_def
        upload_buffers_def render_cmd_def clipMin_def clipMax_def set_enabled_def
        get_GL_TEXTURE_BINDING_2D_def get_GL_ELEMENT_ARRAY_BUFFER_BINDING_def glIsEnabled_def
        GL_TEXTURE0_def GL_TEXTURE1_def vtxBufferSize_def idxBufferSize_def
        sizeof_ImDrawVert_def sizeof_ImDrawIdx_def)

text \<open>
  Claim C1, amended. When every user callback of the draw data returns with the texture
  unit active that it found active (and so, when the draw data has no user callback),
  the state after \<open>renderDrawList\<close> agrees with the state at entry on every value the
  function saves: the active texture unit, the current program, the 2D texture bound on
  texture unit 0 (the binding the function reads, after it has made unit 0 active), the
  array-buffer binding, the element-array-buffer binding of the bound vertex-array
  object, the vertex-array binding, the four blend functions, the two blend equations,
  the viewport, the scissor box, and whether blending, face culling, the depth test and
  the scissor test are enabled. This holds for a zero-sized framebuffer as well.
\<close>

theorem renderDrawList_restores_state:
  assumes "callbacks_keep_active_texture drawData"
  shows "(let s' = snd (snd (renderDrawList vao io drawData r s)) in
     active_texture s' = active_texture s \<and>
     current_program s' = current_program s \<and>
     texture_binding_2d s' GL_TEXTURE0 = texture_binding_2d s GL_TEXTURE0 \<and>
     array_buffer_binding s' = array_buffer_binding s \<and>
     get_GL_ELEMENT_ARRAY_BUFFER_BINDING s' = get_GL_ELEMENT_ARRAY_BUFFER_BINDING s \<and>
     vertex_array_binding s' = vertex_array_binding s \<and>
     blend_src_rgb s' = blend_src_rgb s \<and>
     blend_dst_rgb s' = blend_dst_rgb s \<and>
     blend_src_alpha s' = blend_src_alpha s \<and>
     blend_dst_alpha s' = blend_dst_alpha s \<and>
     blend_equation_rgb s' = blend_equation_rgb s \<and>
     blend_equation_alpha s' = blend_equation_alpha s \<and>
     viewport s' = viewport s \<and>
     scissor_box s' = scissor_box s \<and>
     glIsEnabled GL_BLEND s' = glIsEnabled GL_BLEND s \<and>
     glIsEnabled GL_CULL_FACE s' = glIsEnabled GL_CULL_FACE s \<and>
     glIsEnabled GL_DEPTH_TEST s' = glIsEnabled GL_DEPTH_TEST s \<and>
     glIsEnabled GL_SCISSOR_TEST s' = glIsEnabled GL_SCISSOR_TEST s)"
proof (cases "fbWidth_of io = 0 \<or> fbHeight_of io = 0")
  case True
  then have "renderDrawList vao io drawData r s = (drawData, r, s)"
    by (simp add: renderDrawList_def Let_def)
  then show ?thesis by simp
next
  case False
  then have nz: "fbWidth_of io \<noteq> 0" "fbHeight_of io \<noteq> 0" by simp_all
  define mid where "mid = glDeleteVertexArrays vao
         (snd (fold (render_cmd_list (ScaleClipRects (DisplayFramebufferScale io) drawData)
                      (fbWidth_of io) (fbHeight_of io) vao)
                 (CmdLists (ScaleClipRects (DisplayFramebufferScale io) drawData))
                 (r, setupRenderStates r (ScaleClipRects (DisplayFramebufferScale io) drawData)
                       (fbWidth_of io) (fbHeight_of io) vao
                       (glGenVertexArrays vao (snd (backup_gl_state s))))))"
  have act: "active_texture mid = GL_TEXTURE0"
    unfolding mid_def by (rule renderDrawList_active_before_restore [OF assms])
  have eq: "snd (snd (renderDrawList vao io drawData r s)) =
      restore_gl_state (fst (backup_gl_state s)) mid"
    unfolding mid_def by (rule renderDrawList_gl [OF nz])
  show ?thesis
    unfolding Let_def eq glIsEnabled_def
    by (simp add: restore_gl_state_fields [OF act] backup_gl_state_fields)
qed

lemma example_callbacks_keep:
  "callbacks_keep_active_texture
     (example_drawData [draw_cmd (0, 0, 800, 600) 7,
        callback_cmd (UserFunction (glEnable GL_DEPTH_TEST)),
        callback_cmd ImDrawCallback_ResetRenderState])"
  by (simp add: callbacks_keep_active_texture_def callback_keeps_active_texture_def example_defs
        active_texture_gl)

text \<open>
  Unit 1 is active at entry; the draw data holds a draw command, a user callback that
  enables the depth test, and the reset sentinel.
\<close>

theorem renderDrawList_restores_state_witness:
  "callbacks_keep_active_texture
     (example_drawData [draw_cmd (0, 0, 800, 600) 7,
        callback_cmd (UserFunction (glEnable GL_DEPTH_TEST)),
        callback_cmd ImDrawCallback_ResetRenderState]) \<and>
   (let s' = snd (snd (renderDrawList 9 example_context
        (example_drawData [draw_cmd (0, 0, 800, 600) 7,
           callback_cmd (UserFunction (glEnable GL_DEPTH_TEST)),
           callback_cmd ImDrawCallback_ResetRenderState])
        example_renderer (example_gl\<lparr>active_texture := GL_TEXTURE1\<rparr>)))
    in active_texture s' = GL_TEXTURE1 \<and> current_program s' = 3 \<and>
       texture_binding_2d s' GL_TEXTURE0 = 5 \<and> vertex_array_binding s' = 6 \<and>
       get_GL_ELEMENT_ARRAY_BUFFER_BINDING s' = 8 \<and> viewport s' = (0, 0, 800, 600) \<and>
       \<not> glIsEnabled GL_DEPTH_TEST s' \<and> \<not> glIsEnabled GL_BLEND s')"
proof -
  have e: "get_GL_ELEMENT_ARRAY_BUFFER_BINDING (example_gl\<lparr>active_texture := GL_TEXTURE1\<rparr>) = 8"
    "glIsEnabled GL_DEPTH_TEST (example_gl\<lparr>active_texture := GL_TEXTURE1\<rparr>) = False"
    "glIsEnabled GL_BLEND (example_gl\<lparr>active_texture := GL_TEXTURE1\<rparr>) = False"
    by (simp_all add: example_gl_def get_GL_ELEMENT_ARRAY_BUFFER_BINDING_def glIsEnabled_def)
  show ?thesis
    using renderDrawList_restores_state [OF example_callbacks_keep, of 9 example_context
        example_renderer "example_gl\<lparr>active_texture := GL_TEXTURE1\<rparr>"] example_callbacks_keep
    unfolding Let_def e by (simp add: example_gl_def)
qed

subsection \<open>The texture units that are not active\<close>

lemma other_units_gl:
  "other_units (glEnable cap s) = other_units s"
  "other_units (glDisable cap s) = other_units s"
  "other_units (glBlendEquation m s) = other_units s"
  "other_units (glBlendEquationSeparate m1 m2 s) = other_units s"
  "other_units (glBlendFuncSeparate a b c d s) = other_units s"
  "other_units (glViewport x y w h s) = other_units s"
  "other_units (glScissor x y w h s) = other_units s"
  "other_units (glUseProgram prog s) = other_units s"
  "other_units (glUniform1i l v s) = other_units s"
  "other_units (glUniformMatrix4fv l m' s) = other_units s"
  "other_units (glGenVertexArrays n s) = other_units s"
  "other_units (glDeleteVertexArrays n s) = other_units s"
  "other_units (glBindVertexArray n s) = other_units s"
  "other_units (glBindBuffer t n s) = other_units s"
  "other_units (glEnableVertexAttribArray n s) = other_units s"
  "other_units (glVertexAttribPointer i sz ty nm st ptr s) = other_units s"
  "other_units (glBindTexture n s) = other_units s"
  "other_units (glBufferData t z u s) = other_units s"
  "other_units (glBufferSubData t z s) = other_units s"
  "other_units (glDrawElements md c ty off s) = other_units s"
  by (simp_all add: other_units_def gl_defs split: gl_buffer_target.split)

lemma other_units_setupRenderStates:
  "other_units (setupRenderStates r drawData fbWidth fbHeight vao s) = other_units s"
  by (simp add: setupRenderStates_def run_def other_units_gl)

lemma other_units_render_cmd:
  "callback_keeps_textures pcmd \<Longrightarrow>
   other_units (render_cmd r drawData fbWidth fbHeight vao pcmd s) = other_units s"
  by (simp add: render_cmd_def callback_keeps_textures_def run_def Let_def
        other_units_gl other_units_setupRenderStates
      split: option.splits ImDrawCallback.splits)

lemma other_units_render_cmds:
  "list_all callback_keeps_textures cmds \<Longrightarrow>
   other_units (fold (render_cmd r drawData fbWidth fbHeight vao) cmds s) = other_units s"
  by (induction cmds arbitrary: s) (simp_all add: other_units_render_cmd)

lemma other_units_upload_buffers:
  "other_units (snd (upload_buffers cmdList (r, s))) = other_units s"
  by (simp add: upload_buffers_def Let_def other_units_gl)

lemma other_units_render_cmd_list:
  "list_all callback_keeps_textures (CmdBuffer cmdList) \<Longrightarrow>
   other_units (snd (render_cmd_list drawData fbWidth fbHeight vao cmdList (r, s))) =
     other_units s"
  using other_units_upload_buffers [of cmdList r s]
  by (simp add: render_cmd_list_def split_def Let_def other_units_render_cmds)

lemma other_units_render_cmd_lists:
  "list_all (\<lambda>cmdList. list_all callback_keeps_textures (CmdBuffer cmdList)) segs \<Longrightarrow>
   other_units (snd (fold (render_cmd_list drawData fbWidth fbHeight vao) segs rs)) =
     other_units (snd rs)"
proof (induction segs arbitrary: rs)
  case Nil
  then show ?case by simp
next
  case (Cons cmdList segs)
  obtain r s where rs: "rs = (r, s)" by (cases rs)
  from Cons show ?case
    using other_units_render_cmd_list [of cmdList drawData fbWidth fbHeight vao r s]
    by (simp add: rs)
qed

lemma callback_keeps_textures_scale_cmd:
  "callback_keeps_textures (scale_cmd fb_scale cmd) = callback_keeps_textures cmd"
  by (simp add: scale_cmd_def callback_keeps_textures_def split: prod.splits)

lemma callbacks_keep_textures_ScaleClipRects:
  "callbacks_keep_textures (ScaleClipRects fb_scale drawData) = callbacks_keep_textures drawData"
  by (simp add: callbacks_keep_textures_def ScaleClipRects_def list_all_iff
        callback_keeps_textures_scale_cmd)

lemma callbacks_keep_textures_active:
  "callbacks_keep_textures drawData \<Longrightarrow> callbacks_keep_active_texture drawData"
  by (auto simp: callbacks_keep_textures_def callbacks_keep_active_texture_def list_all_iff
        callback_keeps_textures_def callback_keeps_active_texture_def
      split: option.splits ImDrawCallback.splits)

lemma restore_gl_state_textures:
  "active_texture s = GL_TEXTURE0 \<Longrightarrow>
   texture_binding_2d (restore_gl_state b s) = (texture_binding_2d s)(GL_TEXTURE0 := lastTexture b)"
  by (simp add: restore_gl_state_def run_def gl_defs set_enabled_def split: prod.splits)

text \<open>
  Under the stronger condition on the callbacks the 2D texture binding of every texture
  unit is what it was at entry, so \<open>GL_TEXTURE_BINDING_2D\<close> reads the same before and
  after the call, whichever unit was active.
\<close>

lemma renderDrawList_texture_units:
  assumes "callbacks_keep_textures drawData"
  shows "texture_binding_2d (snd (snd (renderDrawList vao io drawData r s))) =
     texture_binding_2d s"
proof (cases "fbWidth_of io = 0 \<or> fbHeight_of io = 0")
  case True
  then have "renderDrawList vao io drawData r s = (drawData, r, s)"
    by (simp add: renderDrawList_def Let_def)
  then show ?thesis by simp
next
  case False
  then have nz: "fbWidth_of io \<noteq> 0" "fbHeight_of io \<noteq> 0" by simp_all
  define dd where "dd = ScaleClipRects (DisplayFramebufferScale io) drawData"
  define s1 where "s1 = glActiveTexture GL_TEXTURE0 s"
  define mid where "mid = glDeleteVertexArrays vao
         (snd (fold (render_cmd_list dd (fbWidth_of io) (fbHeight_of io) vao) (CmdLists dd)
                 (r, setupRenderStates r dd (fbWidth_of io) (fbHeight_of io) vao
                       (glGenVertexArrays vao s1))))"
  have keep: "list_all (\<lambda>cmdList. list_all callback_keeps_textures (CmdBuffer cmdList))
      (CmdLists dd)"
    using assms
    by (simp add: dd_def callbacks_keep_textures_ScaleClipRects
          callbacks_keep_textures_def [symmetric])
  have act: "active_texture mid = GL_TEXTURE0"
    unfolding mid_def dd_def s1_def backup_gl_state_fields(1) [symmetric]
    by (rule renderDrawList_active_before_restore
          [OF callbacks_keep_textures_active [OF assms]])
  have "other_units mid = other_units s1"
    unfolding mid_def
    by (simp add: other_units_gl other_units_render_cmd_lists [OF keep]
          other_units_setupRenderStates)
  then have off: "(texture_binding_2d mid)(GL_TEXTURE0 := 0) = (texture_binding_2d s)(GL_TEXTURE0 := 0)"
    using act by (simp add: other_units_def s1_def glActiveTexture_def issue_def)
  have eq: "snd (snd (renderDrawList vao io drawData r s)) =
      restore_gl_state (fst (backup_gl_state s)) mid"
    unfolding mid_def dd_def s1_def backup_gl_state_fields(1) [symmetric]
    by (rule renderDrawList_gl [OF nz])
  have "texture_binding_2d (restore_gl_state (fst (backup_gl_state s)) mid) =
      ((texture_binding_2d mid)(GL_TEXTURE0 := 0))(GL_TEXTURE0 := texture_binding_2d s GL_TEXTURE0)"
    by (simp add: restore_gl_state_textures [OF act] backup_gl_state_fields)
  also have "\<dots> = texture_binding_2d s"
    unfolding off by simp
  finally show ?thesis by (simp add: eq)
qed

end
